theory Spec2Isabelle
  imports Complex_Main "HOL-Library.Word" "HOL-Library.Signed_Division"
begin

section \<open>The FreeRTOS general application (main.c) as HOL functions\<close>

text \<open>
  The application is one C file, \<^verbatim>\<open>main.c\<close>. Its functions are embedded here as HOL
  functions over an explicit record of the state they read and write. The FreeRTOS kernel,
  the STM32 peripheral library and the C library are not part of the file: their calls are
  modelled by what main.c observes of them (a message posted to the queue, a command sent
  to the timer service, a byte read from the receive register, the tick count).
\<close>

subsection \<open>Machine types\<close>

type_synonym int32_t = "32 word"
type_synonym uint8_t = "8 word"
type_synonym TickType_t = "32 word"

text \<open>
  \<^verbatim>\<open>BaseType_t\<close> flags only ever hold \<^verbatim>\<open>pdTRUE\<close> or \<^verbatim>\<open>pdFALSE\<close> in main.c; they are booleans
  here (\<^verbatim>\<open>x == pdTRUE\<close> is \<open>x\<close>, \<^verbatim>\<open>x == pdFALSE\<close> is \<open>\<not> x\<close>).
\<close>

type_synonym BaseType_t = bool

text \<open>\<^verbatim>\<open>#define INVALID_NUM (int32_t)0xFFFFFFFF\<close>, that is \<open>-1\<close>.\<close>

definition INVALID_NUM :: int32_t where
  "INVALID_NUM = 0xFFFFFFFF"

definition CR :: char where
  "CR = CHR 0x0D"

text \<open>
  What can go wrong in a C function of the file, as a value: a write past the end of the
  caller's buffer, an integer division by zero, a read through a null pointer. A function
  either returns, or spins for ever in a busy-wait loop, or runs into one of these.
\<close>

datatype fault = BufferOverrun | DivideByZero | NullPointerDereference

datatype 'a outcome = Returns 'a | NeverReturns | Faults fault

subsection \<open>Dates, times and temperatures\<close>

text \<open>
  The fields of the peripheral library's \<^verbatim>\<open>RTC_TimeTypeDef\<close> and \<^verbatim>\<open>RTC_DateTypeDef\<close> that
  main.c assigns (the structures are zeroed first; every field is a \<^verbatim>\<open>uint8_t\<close>).
\<close>

record RTC_TimeTypeDef =
  RTC_Hours :: uint8_t
  RTC_Minutes :: uint8_t
  RTC_Seconds :: uint8_t

record RTC_DateTypeDef =
  RTC_WeekDay :: uint8_t
  RTC_Month :: uint8_t
  RTC_Date :: uint8_t
  RTC_Year :: uint8_t

text \<open>
  A C \<^verbatim>\<open>float\<close> as far as main.c uses it: the temperature monitor stores samples and
  compares them with \<^verbatim>\<open><\<close> and \<^verbatim>\<open>>\<close>. A value is a finite number, an infinity or a NaN, and the
  comparisons are those of IEEE 754: false whenever an operand is a NaN.
\<close>

datatype float = Finite real | PlusInfinity | MinusInfinity | NaN



subsection \<open>Messages posted to the UART write queue\<close>

text \<open>
  \<^verbatim>\<open>xUartWriteQueue\<close> holds \<^verbatim>\<open>char*\<close> pointers. Each pointer main.c posts is either the
  address of one of its string literals, named here by a constructor, or the address of a
  buffer just filled by \<^verbatim>\<open>sprintf\<close>, whose text (after the leading line breaks) the constructor
  carries:
  \<^item> \<open>MENU\<close>: \<^verbatim>\<open>pcMenu\<close>;
  \<^item> \<open>UNRECOGNIZED_OPTION\<close>: \<^verbatim>\<open>"\r\nError: Unrecognized option selected\r\n"\<close>;
  \<^item> \<open>USER_INPUT_TIMEOUT\<close>: \<^verbatim>\<open>"\r\nUser input timeout...\r\n"\<close>;
  \<^item> \<open>CALC_ENTER_FIRST\<close>: \<^verbatim>\<open>"\r\n\nThis is a calculator sub-application ... Enter the first integer = "\<close>;
  \<^item> \<open>CALC_ENTER_SECOND\<close>: \<^verbatim>\<open>"\r\n\nEnter the second integer = "\<close>;
  \<^item> \<open>CALC_ENTER_OPERATOR\<close>: \<^verbatim>\<open>"\r\n\nEnter the operator (+ - * /) = "\<close>;
  \<^item> \<open>CALC_RESULT s\<close>: \<^verbatim>\<open>cUartMsg\<close> after \<^verbatim>\<open>sprintf(cUartMsg, "\r\n\nThe calculated integer is %ld", lCalcNum)\<close>;
  \<^item> \<open>UNRECOGNIZED_OPERATOR\<close>: \<^verbatim>\<open>"\r\nError: Unrecognized mathematical operator selected\r\n"\<close>;
  \<^item> \<open>TIME_ENTER_HOUR\<close>: \<^verbatim>\<open>"\r\n\nConfiguring the time ... Enter the hour in 24 hour format\r\n"\<close>;
  \<^item> \<open>TIME_ENTER_MINUTE\<close>, \<open>TIME_ENTER_SECOND\<close>: \<^verbatim>\<open>"\r\n\nEnter the minute\r\n"\<close>, \<^verbatim>\<open>"\r\n\nEnter the second\r\n"\<close>;
  \<^item> \<open>DATE_ENTER_DAY\<close>: \<^verbatim>\<open>"\r\n\nConfiguring the date ... Enter the day of the month\r\n"\<close>;
  \<^item> \<open>DATE_ENTER_MONTH\<close>, \<open>DATE_ENTER_YEAR\<close>, \<open>DATE_ENTER_WEEKDAY\<close>: the month, year and
    day-of-the-week prompts;
  \<^item> \<open>RTC_SET_DATE_ERROR\<close>: \<^verbatim>\<open>"\r\n\nRTC set date error\r\n"\<close>;
  \<^item> \<open>WENT_TO_SLEEP\<close>: \<^verbatim>\<open>"\r\n\nWent to sleep ... Press any keyboard letter/number to wake up\r\n"\<close>;
  \<^item> \<open>WOKE_UP\<close>: \<^verbatim>\<open>"\r\nWoke up from sleep mode\r\n"\<close>;
  \<^item> \<open>TEMP_CURRENT d t x\<close>, \<open>TEMP_HIGHEST d t x\<close>, \<open>TEMP_LOWEST d t x\<close>: \<^verbatim>\<open>cTempStatsMsg\<close> after the
    \<^verbatim>\<open>sprintf\<close> of a date, a time and a temperature with the current, highest or lowest
    format;
  \<^item> \<open>LED_TOGGLE_PROMPT\<close>: \<^verbatim>\<open>"\r\nToggle the LED? ..."\<close>;
  \<^item> \<open>TEMP_MONITOR_MENU\<close>: \<^verbatim>\<open>"\r\n\nThis is a temperature monitoring sub-application ..."\<close>;
  \<^item> \<open>TEMP_MONITOR_STARTED\<close>, \<open>TEMP_MONITOR_STOPPED\<close>: \<^verbatim>\<open>"\r\n\nTemperature monitor started\r\n"\<close>
    and \<^verbatim>\<open>"\r\n\nTemperature monitor stopped\r\n"\<close>;
  \<^item> \<open>TEMP_MONITOR_NOT_STARTED\<close>: \<^verbatim>\<open>"\r\n\nTemperature monitor has not been started yet ..."\<close>;
  \<^item> \<open>TEMP_MONITOR_UNRECOGNIZED_OPTION\<close>: \<^verbatim>\<open>"\r\n\nError: Unrecognized option selected\r\n"\<close>, the
    literal of \<^verbatim>\<open>vManageTempMonitor\<close>.
\<close>

datatype pcData =
    MENU
  | UNRECOGNIZED_OPTION
  | USER_INPUT_TIMEOUT
  | CALC_ENTER_FIRST
  | CALC_ENTER_SECOND
  | CALC_ENTER_OPERATOR
  | CALC_RESULT string
  | UNRECOGNIZED_OPERATOR
  | TIME_ENTER_HOUR
  | TIME_ENTER_MINUTE
  | TIME_ENTER_SECOND
  | DATE_ENTER_DAY
  | DATE_ENTER_MONTH
  | DATE_ENTER_YEAR
  | DATE_ENTER_WEEKDAY
  | RTC_SET_DATE_ERROR
  | WENT_TO_SLEEP
  | WOKE_UP
  | TEMP_CURRENT RTC_DateTypeDef RTC_TimeTypeDef float
  | TEMP_HIGHEST RTC_DateTypeDef RTC_TimeTypeDef float
  | TEMP_LOWEST RTC_DateTypeDef RTC_TimeTypeDef float
  | LED_TOGGLE_PROMPT
  | TEMP_MONITOR_MENU
  | TEMP_MONITOR_STARTED
  | TEMP_MONITOR_STOPPED
  | TEMP_MONITOR_NOT_STARTED
  | TEMP_MONITOR_UNRECOGNIZED_OPTION

subsection \<open>The console: tick count, receive register, write queue\<close>

text \<open>
  \<^item> \<open>xTickCount\<close>: ticks since the scheduler started. \<^verbatim>\<open>xTaskGetTickCount()\<close> returns it as a
    \<^verbatim>\<open>TickType_t\<close>, 32 bits, so the value read wraps around.
  \<^item> \<open>ticks_30000ms\<close>: the value of \<^verbatim>\<open>pdMS_TO_TICKS(30000)\<close>. The macro depends on
    \<^verbatim>\<open>configTICK_RATE_HZ\<close> of FreeRTOSConfig.h, which is not part of main.c, so the value is
    a parameter.
  \<^item> \<open>rx_pending\<close>: the bytes the terminal still sends, in order, each with the tick at which
    it reaches the receive data register (RXNE set). The busy-wait on RXNE ends when the
    next byte is there; when no byte is left it never ends.
  \<^item> \<open>xUartWriteQueue\<close>: the pointers posted with \<^verbatim>\<open>xQueueSend\<close>, oldest first. The UART write
    task takes them out in this order; \<^verbatim>\<open>xQueueSend(..., portMAX_DELAY)\<close> waits for space,
    so no message is dropped and the sequence of posts is what the model keeps.
\<close>

record console =
  xTickCount :: nat
  ticks_30000ms :: TickType_t
  rx_pending :: "(nat \<times> char) list"
  xUartWriteQueue :: "pcData list"

definition xTaskGetTickCount :: "nat \<Rightarrow> TickType_t" where
  "xTaskGetTickCount now = of_nat now"

definition xQueueSend :: "pcData \<Rightarrow> 'a console_scheme \<Rightarrow> 'a console_scheme" where
  "xQueueSend msg w = w\<lparr>xUartWriteQueue := xUartWriteQueue w @ [msg]\<rparr>"

subsection \<open>xReceiveUartMsg\<close>

text \<open>
  The \<^verbatim>\<open>while\<close> loop of \<^verbatim>\<open>xReceiveUartMsg\<close>, by recursion on the bytes still to come.
  \<open>now\<close> is the tick count, \<open>ucDataByte\<close> the byte received last (0 at the start), \<open>buf\<close> the
  bytes written to \<^verbatim>\<open>pcMsgBuffer\<close> so far (\<^verbatim>\<open>usMsgLen\<close> is its length), \<open>cap\<close> the size of
  the caller's array and \<open>quit\<close> the caller's \<^verbatim>\<open>*pxQuitCurrentApp\<close>.
  Time passes only in the busy-wait on RXNE, which ends at the arrival of the next byte.
  The loop writes \<^verbatim>\<open>pcMsgBuffer[usMsgLen++]\<close> with no bound check: a write at index \<open>cap\<close> is
  a fault.
\<close>

fun xReceiveUartMsg_loop ::
  "TickType_t \<Rightarrow> nat \<Rightarrow> (nat \<times> char) list \<Rightarrow> nat \<Rightarrow> char \<Rightarrow> string \<Rightarrow> BaseType_t \<Rightarrow>
   (nat \<times> (nat \<times> char) list \<times> string \<times> BaseType_t) outcome"
where
  "xReceiveUartMsg_loop xDeadline cap [] now ucDataByte buf quit =
     (if xTaskGetTickCount now < xDeadline then NeverReturns
      else Returns (now, [], buf, quit))"
| "xReceiveUartMsg_loop xDeadline cap ((t, b) # rx) now ucDataByte buf quit =
     (if xTaskGetTickCount now < xDeadline then
        (if b \<noteq> CR then
           (if length buf < cap
            then xReceiveUartMsg_loop xDeadline cap rx (max now t) b (buf @ [b]) quit
            else Faults BufferOverrun)
         else Returns (max now t, rx, buf,
                 (if ucDataByte = CHR ''q'' \<or> ucDataByte = CHR ''Q'' then True else quit)))
      else Returns (now, (t, b) # rx, buf, quit))"

text \<open>
  The function: the tick count is sampled at entry, the loop runs, and the tick count is
  compared with the deadline once more. The result is \<^verbatim>\<open>xReadSuccess\<close>, the caller's quit
  flag, the text now in the caller's buffer (the caller has zeroed the buffer before the
  call, so the text ends at the first byte not written) and the console.
\<close>

definition xReceiveUartMsg ::
  "nat \<Rightarrow> 'a console_scheme \<Rightarrow> BaseType_t \<Rightarrow>
   (BaseType_t \<times> BaseType_t \<times> string \<times> 'a console_scheme) outcome"
where
  "xReceiveUartMsg cap w xQuitCurrentApp =
     (let xCurrentTickCount = xTaskGetTickCount (xTickCount w);
          xDeadline = xCurrentTickCount + ticks_30000ms w
      in case xReceiveUartMsg_loop xDeadline cap (rx_pending w) (xTickCount w) (CHR 0x00) []
                xQuitCurrentApp of
           NeverReturns \<Rightarrow> NeverReturns
         | Faults f \<Rightarrow> Faults f
         | Returns (now, rx, buf, quit) \<Rightarrow>
             (if xTaskGetTickCount now < xDeadline
              then Returns (True, quit, buf, w\<lparr>xTickCount := now, rx_pending := rx\<rparr>)
              else Returns (False, quit, buf,
                     xQueueSend USER_INPUT_TIMEOUT (w\<lparr>xTickCount := now, rx_pending := rx\<rparr>))))"

subsection \<open>lUartMsgtoInt32 and the decimal conversion of sprintf\<close>

text \<open>
  \<^verbatim>\<open>pcUartMsg[i] >= '0' && pcUartMsg[i] <= '9'\<close>
\<close>

definition is_digit :: "char \<Rightarrow> bool" where
  "is_digit c \<longleftrightarrow> (48::nat) \<le> of_char c \<and> of_char c \<le> (57::nat)"

text \<open>
  The loop of \<^verbatim>\<open>lUartMsgtoInt32\<close> over the C string in the buffer: the list is the text up to
  the terminating NUL, and the NUL is not a digit, so the loop ends where the list does.
  \<^verbatim>\<open>ulNum\<close> is an \<^verbatim>\<open>int32_t\<close>; the multiplication and addition are those of the 32-bit
  two's-complement machine.
\<close>

fun lUartMsgtoInt32_loop :: "string \<Rightarrow> nat \<Rightarrow> int32_t \<Rightarrow> nat \<times> int32_t" where
  "lUartMsgtoInt32_loop [] i ulNum = (i, ulNum)"
| "lUartMsgtoInt32_loop (c # cs) i ulNum =
     (if is_digit c
      then lUartMsgtoInt32_loop cs (i + 1) ((ulNum * 10) + (of_char c - 48))
      else (i, ulNum))"

definition lUartMsgtoInt32 :: "string \<Rightarrow> int32_t" where
  "lUartMsgtoInt32 pcUartMsg =
     (case lUartMsgtoInt32_loop pcUartMsg 0 0 of
        (i, ulNum) \<Rightarrow> if i > 0 then ulNum else INVALID_NUM)"

text \<open>
  The only place where main.c turns a parsed number back into text is \<^verbatim>\<open>sprintf\<close> with the
  conversion \<^verbatim>\<open>%ld\<close>: the decimal digits of the signed value, most significant first, no
  leading zeros, a minus sign for a negative value.
\<close>

fun dec_digits :: "nat \<Rightarrow> string" where
  "dec_digits n =
     (if n < 10 then [char_of (48 + n)]
      else dec_digits (n div 10) @ [char_of (48 + n mod 10)])"

declare dec_digits.simps [simp del]

definition sprintf_ld :: "int32_t \<Rightarrow> string" where
  "sprintf_ld x =
     (if sint x < 0 then CHR ''-'' # dec_digits (nat (- sint x))
      else dec_digits (nat (sint x)))"

text \<open>The value of a digit string read left to right, for the proofs about the parser.\<close>

fun digits_val :: "string \<Rightarrow> nat \<Rightarrow> nat" where
  "digits_val [] acc = acc"
| "digits_val (c # cs) acc = digits_val cs (acc * 10 + (of_char c - 48))"

subsection \<open>vCalculatorTaskFunction\<close>

text \<open>Sequencing of calls that may not return or may fault.\<close>

definition bind_outcome :: "'a outcome \<Rightarrow> ('a \<Rightarrow> 'b outcome) \<Rightarrow> 'b outcome" where
  "bind_outcome m f = (case m of Returns x \<Rightarrow> f x | NeverReturns \<Rightarrow> NeverReturns | Faults e \<Rightarrow> Faults e)"

text \<open>
  \<^verbatim>\<open>cUartMsg[0]\<close> of a buffer that was zeroed and then holds the text: the first byte of the
  text, or the NUL left by \<^verbatim>\<open>memset\<close> when the text is empty.
\<close>

definition first_byte :: "string \<Rightarrow> char" where
  "first_byte cUartMsg = (case cUartMsg of [] \<Rightarrow> CHR 0x00 | c # _ \<Rightarrow> c)"

text \<open>
  The four operators on \<^verbatim>\<open>int32_t\<close>. Addition, subtraction and multiplication are those of
  the 32-bit machine. C's \<^verbatim>\<open>/\<close> truncates towards zero and is undefined for a zero divisor:
  the embedding makes the zero divisor a fault, so that a caller that does not test the
  divisor reaches it.
\<close>

definition int32_div :: "int32_t \<Rightarrow> int32_t \<Rightarrow> int32_t outcome" where
  "int32_div a b =
     (if b = 0 then Faults DivideByZero else Returns (word_of_int (sint a sdiv sint b)))"

text \<open>
  \<^verbatim>\<open>sprintf(cUartMsg, "\r\n\nThe calculated integer is %ld", lCalcNum)\<close> followed by the post
  of \<^verbatim>\<open>cUartMsg\<close> to the queue.
\<close>

definition post_calculated :: "int32_t \<Rightarrow> 'a console_scheme \<Rightarrow> 'a console_scheme" where
  "post_calculated lCalcNum w =
     xQueueSend (CALC_RESULT (''The calculated integer is '' @ sprintf_ld lCalcNum)) w"

text \<open>
  One pass of the \<^verbatim>\<open>while(1)\<close> loop of \<^verbatim>\<open>vCalculatorTaskFunction\<close>, from the first prompt to
  the end of the nested \<^verbatim>\<open>if\<close>s. It returns \<^verbatim>\<open>xQuitCurrentApp\<close> and the console. When the
  flag is set, the task then notifies the Main Menu task, waits for its next notification
  and clears the flag; in either case the loop starts again at the first prompt.
\<close>

definition vCalculatorTaskFunction_body ::
  "'a console_scheme \<Rightarrow> BaseType_t \<Rightarrow> (BaseType_t \<times> 'a console_scheme) outcome"
where
  "vCalculatorTaskFunction_body w0 xQuitCurrentApp0 =
     bind_outcome (xReceiveUartMsg 50 (xQueueSend CALC_ENTER_FIRST w0) xQuitCurrentApp0)
       (\<lambda>(xReadSuccess, xQuitCurrentApp, cUartMsg, w).
          let lFirstNum = lUartMsgtoInt32 cUartMsg in
          if xReadSuccess \<and> \<not> xQuitCurrentApp \<and> lFirstNum \<noteq> INVALID_NUM then
            bind_outcome (xReceiveUartMsg 50 (xQueueSend CALC_ENTER_SECOND w) xQuitCurrentApp)
              (\<lambda>(xReadSuccess, xQuitCurrentApp, cUartMsg, w).
                 let lSecondNum = lUartMsgtoInt32 cUartMsg in
                 if xReadSuccess \<and> \<not> xQuitCurrentApp \<and> lSecondNum \<noteq> INVALID_NUM then
                   bind_outcome
                     (xReceiveUartMsg 50 (xQueueSend CALC_ENTER_OPERATOR w) xQuitCurrentApp)
                     (\<lambda>(xReadSuccess, xQuitCurrentApp, cUartMsg, w).
                        if xReadSuccess \<and> \<not> xQuitCurrentApp then
                          (if first_byte cUartMsg = CHR ''+'' then
                             Returns (xQuitCurrentApp, post_calculated (lFirstNum + lSecondNum) w)
                           else if first_byte cUartMsg = CHR ''-'' then
                             Returns (xQuitCurrentApp, post_calculated (lFirstNum - lSecondNum) w)
                           else if first_byte cUartMsg = CHR ''*'' then
                             Returns (xQuitCurrentApp, post_calculated (lFirstNum * lSecondNum) w)
                           else if first_byte cUartMsg = CHR ''/'' then
                             bind_outcome (int32_div lFirstNum lSecondNum)
                               (\<lambda>lCalcNum. Returns (xQuitCurrentApp, post_calculated lCalcNum w))
                           else Returns (xQuitCurrentApp, xQueueSend UNRECOGNIZED_OPERATOR w))
                        else Returns (xQuitCurrentApp, w))
                 else Returns (xQuitCurrentApp, w))
          else Returns (xQuitCurrentApp, w))"

subsection \<open>The real-time clock and vSetDateAndTime\<close>

datatype rtc_write = SetTime RTC_TimeTypeDef | SetDate RTC_DateTypeDef

text \<open>
  The clock service as main.c sees it: \<open>rtc_accepts\<close> says whether the peripheral takes a
  write (the library call returns \<^verbatim>\<open>SUCCESS\<close>) or refuses it (\<^verbatim>\<open>ERROR\<close>, nothing written);
  \<open>rtc_writes\<close> lists the writes it took, oldest first.
\<close>

record clock = console +
  rtc_accepts :: bool
  rtc_writes :: "rtc_write list"

text \<open>
  Modelled from the spec: \<^verbatim>\<open>set_clock(date, time)\<close> of the external clock service. The
  library functions \<^verbatim>\<open>RTC_SetTime\<close> and \<^verbatim>\<open>RTC_SetDate\<close> are not part of main.c; each returns
  an \<^verbatim>\<open>ErrorStatus\<close> (here \<open>True\<close> for \<^verbatim>\<open>SUCCESS\<close>), which main.c reads for the date only.
\<close>

definition RTC_SetTime :: "RTC_TimeTypeDef \<Rightarrow> 'a clock_scheme \<Rightarrow> bool \<times> 'a clock_scheme" where
  "RTC_SetTime xTimeConfig w =
     (if rtc_accepts w then (True, w\<lparr>rtc_writes := rtc_writes w @ [SetTime xTimeConfig]\<rparr>)
      else (False, w))"

definition RTC_SetDate :: "RTC_DateTypeDef \<Rightarrow> 'a clock_scheme \<Rightarrow> bool \<times> 'a clock_scheme" where
  "RTC_SetDate xDateConfig w =
     (if rtc_accepts w then (True, w\<lparr>rtc_writes := rtc_writes w @ [SetDate xDateConfig]\<rparr>)
      else (False, w))"

text \<open>
  Modelled from the spec: the range macros \<^verbatim>\<open>IS_RTC_DATE\<close>, \<^verbatim>\<open>IS_RTC_MONTH\<close> and
  \<^verbatim>\<open>IS_RTC_WEEKDAY\<close> of the peripheral library's header, which is not part of main.c. The
  spec validates day, month and weekday per calendar rules: a day of the month from 1 to
  31, a month from 1 to 12, a weekday from 1 (Monday) to 7 (Sunday), as the prompt of
  main.c numbers them.
\<close>

definition IS_RTC_DATE :: "int32_t \<Rightarrow> bool" where
  "IS_RTC_DATE x \<longleftrightarrow> 1 \<le> sint x \<and> sint x \<le> 31"

definition IS_RTC_MONTH :: "int32_t \<Rightarrow> bool" where
  "IS_RTC_MONTH x \<longleftrightarrow> 1 \<le> sint x \<and> sint x \<le> 12"

definition IS_RTC_WEEKDAY :: "int32_t \<Rightarrow> bool" where
  "IS_RTC_WEEKDAY x \<longleftrightarrow> 1 \<le> sint x \<and> sint x \<le> 7"

text \<open>
  \<^verbatim>\<open>vSetDateAndTime\<close> is two statements in sequence. The first is the nest of \<^verbatim>\<open>if\<close>s that
  asks for hour, minute and second and calls \<^verbatim>\<open>RTC_SetTime\<close> in the innermost branch. The
  signed comparisons are on the \<^verbatim>\<open>int32_t\<close> \<^verbatim>\<open>lUsersInput\<close>; the assignment to a \<^verbatim>\<open>uint8_t\<close>
  field keeps the low byte.
\<close>

definition vSetDateAndTime_time ::
  "'a clock_scheme \<Rightarrow> BaseType_t \<Rightarrow> (BaseType_t \<times> 'a clock_scheme) outcome"
where
  "vSetDateAndTime_time w0 xQuitCurrentApp0 =
     bind_outcome (xReceiveUartMsg 50 (xQueueSend TIME_ENTER_HOUR w0) xQuitCurrentApp0)
       (\<lambda>(xReadSuccess, xQuitCurrentApp, cUartMsg, w).
          let lHour = lUartMsgtoInt32 cUartMsg in
          if xReadSuccess \<and> \<not> xQuitCurrentApp \<and> 0 \<le> sint lHour \<and> sint lHour \<le> 23 then
            bind_outcome (xReceiveUartMsg 50 (xQueueSend TIME_ENTER_MINUTE w) xQuitCurrentApp)
              (\<lambda>(xReadSuccess, xQuitCurrentApp, cUartMsg, w).
                 let lMinute = lUartMsgtoInt32 cUartMsg in
                 if xReadSuccess \<and> \<not> xQuitCurrentApp \<and> 0 \<le> sint lMinute \<and> sint lMinute \<le> 59 then
                   bind_outcome
                     (xReceiveUartMsg 50 (xQueueSend TIME_ENTER_SECOND w) xQuitCurrentApp)
                     (\<lambda>(xReadSuccess, xQuitCurrentApp, cUartMsg, w).
                        let lSecond = lUartMsgtoInt32 cUartMsg in
                        if xReadSuccess \<and> \<not> xQuitCurrentApp \<and>
                           0 \<le> sint lSecond \<and> sint lSecond \<le> 59
                        then Returns (xQuitCurrentApp,
                               snd (RTC_SetTime
                                 \<lparr>RTC_Hours = ucast lHour, RTC_Minutes = ucast lMinute,
                                  RTC_Seconds = ucast lSecond\<rparr> w))
                        else Returns (xQuitCurrentApp, w))
                 else Returns (xQuitCurrentApp, w))
          else Returns (xQuitCurrentApp, w))"

text \<open>
  The second statement is \<^verbatim>\<open>if (*pxQuitCurrentApp == pdFALSE) { ... }\<close>; this is its body: the
  nest that asks for day, month, year and weekday and calls \<^verbatim>\<open>RTC_SetDate\<close> in the innermost
  branch, posting a message when the call reports an error.
\<close>

definition vSetDateAndTime_date ::
  "'a clock_scheme \<Rightarrow> BaseType_t \<Rightarrow> (BaseType_t \<times> 'a clock_scheme) outcome"
where
  "vSetDateAndTime_date w0 xQuitCurrentApp0 =
     bind_outcome (xReceiveUartMsg 50 (xQueueSend DATE_ENTER_DAY w0) xQuitCurrentApp0)
       (\<lambda>(xReadSuccess, xQuitCurrentApp, cUartMsg, w).
          let lDay = lUartMsgtoInt32 cUartMsg in
          if xReadSuccess \<and> \<not> xQuitCurrentApp \<and> IS_RTC_DATE lDay then
            bind_outcome (xReceiveUartMsg 50 (xQueueSend DATE_ENTER_MONTH w) xQuitCurrentApp)
              (\<lambda>(xReadSuccess, xQuitCurrentApp, cUartMsg, w).
                 let lMonth = lUartMsgtoInt32 cUartMsg in
                 if xReadSuccess \<and> \<not> xQuitCurrentApp \<and> IS_RTC_MONTH lMonth then
                   bind_outcome
                     (xReceiveUartMsg 50 (xQueueSend DATE_ENTER_YEAR w) xQuitCurrentApp)
                     (\<lambda>(xReadSuccess, xQuitCurrentApp, cUartMsg, w).
                        let lYear = lUartMsgtoInt32 cUartMsg in
                        if xReadSuccess \<and> \<not> xQuitCurrentApp \<and>
                           0 \<le> sint lYear \<and> sint lYear \<le> 99
                        then
                          bind_outcome
                            (xReceiveUartMsg 50 (xQueueSend DATE_ENTER_WEEKDAY w) xQuitCurrentApp)
                            (\<lambda>(xReadSuccess, xQuitCurrentApp, cUartMsg, w).
                               let lWeekDay = lUartMsgtoInt32 cUartMsg in
                               if xReadSuccess \<and> \<not> xQuitCurrentApp \<and> IS_RTC_WEEKDAY lWeekDay
                               then
                                 (case RTC_SetDate
                                    \<lparr>RTC_WeekDay = ucast lWeekDay, RTC_Month = ucast lMonth,
                                     RTC_Date = ucast lDay, RTC_Year = ucast lYear\<rparr> w of
                                    (success, w') \<Rightarrow>
                                      if \<not> success
                                      then Returns (xQuitCurrentApp,
                                             xQueueSend RTC_SET_DATE_ERROR w')
                                      else Returns (xQuitCurrentApp, w'))
                               else Returns (xQuitCurrentApp, w))
                        else Returns (xQuitCurrentApp, w))
                 else Returns (xQuitCurrentApp, w))
          else Returns (xQuitCurrentApp, w))"

definition vSetDateAndTime ::
  "'a clock_scheme \<Rightarrow> BaseType_t \<Rightarrow> (BaseType_t \<times> 'a clock_scheme) outcome"
where
  "vSetDateAndTime w0 xQuitCurrentApp0 =
     bind_outcome (vSetDateAndTime_time w0 xQuitCurrentApp0)
       (\<lambda>(xQuitCurrentApp, w).
          if \<not> xQuitCurrentApp then vSetDateAndTime_date w xQuitCurrentApp
          else Returns (xQuitCurrentApp, w))"

subsection \<open>Global variables, task notifications and the timer service\<close>

text \<open>
  The tasks that are notified in main.c, named by their handles: \<^verbatim>\<open>xMainMenuTaskHandle\<close>,
  \<^verbatim>\<open>xClockTaskHandle\<close>, \<^verbatim>\<open>xGameTaskHandle\<close>, \<^verbatim>\<open>xCalculatorTaskHandle\<close> and
  \<^verbatim>\<open>xTempMonitorTaskHandle\<close>.
\<close>

datatype task = MainMenuTask | ClockTask | GameTask | CalculatorTask | TempMonitorTask

text \<open>
  What main.c sends to the FreeRTOS timer service: \<^verbatim>\<open>xTimerCreate\<close> makes a timer and returns
  its handle; \<^verbatim>\<open>xTimerStart\<close>, \<^verbatim>\<open>xTimerStop\<close> and \<^verbatim>\<open>xTimerDelete\<close> put a command for a handle on
  the timer command queue.
\<close>

datatype timer_command =
    TIMER_CREATE nat TickType_t
  | TIMER_START nat
  | TIMER_STOP nat
  | TIMER_DELETE nat

text \<open>
  The state of the whole application:
  \<^item> \<open>ticks_500ms\<close>: the value of \<^verbatim>\<open>pdMS_TO_TICKS(500)\<close>, a parameter like \<open>ticks_30000ms\<close>;
  \<^item> \<open>xGoToSleep\<close>, \<open>xShowTemps\<close>, \<open>xRunTempMonitor\<close>: the three global flags;
  \<^item> \<open>pxLedToggleTimer\<close>: the global timer handle, \<open>None\<close> for \<^verbatim>\<open>NULL\<close>;
  \<^item> \<open>timer_commands\<close>: the calls made to the timer service, oldest first;
  \<^item> \<open>led_on\<close>: the output pin PA5;
  \<^item> \<open>usart2_rxne_interrupt\<close>: whether the receive interrupt of USART2 is enabled
    (\<^verbatim>\<open>USART_ITConfig\<close> and the NVIC line, switched together in main.c);
  \<^item> \<open>notified\<close>: for each task, whether a notification is pending for it. All
    notifications of main.c carry the value 0 with \<^verbatim>\<open>eNoAction\<close>, so a pending notification
    is one bit: \<^verbatim>\<open>xTaskNotify\<close> sets it, also when the task is not waiting, and
    \<^verbatim>\<open>xTaskNotifyWait\<close> returns at once and clears it when it is set, and blocks the task
    until it is set otherwise.
\<close>

record world = clock +
  ticks_500ms :: TickType_t
  xGoToSleep :: BaseType_t
  xShowTemps :: BaseType_t
  xRunTempMonitor :: BaseType_t
  pxLedToggleTimer :: "nat option"
  timer_commands :: "timer_command list"
  led_on :: bool
  usart2_rxne_interrupt :: bool
  notified :: "task \<Rightarrow> bool"

definition xTaskNotify :: "task \<Rightarrow> 'a world_scheme \<Rightarrow> 'a world_scheme" where
  "xTaskNotify t w = w\<lparr>notified := (notified w)(t := True)\<rparr>"


subsection \<open>The LED timer\<close>

text \<open>
  \<^verbatim>\<open>xTimerCreate\<close>: a new timer with a handle that no earlier timer has (the number of the
  creation), recorded with its period.
\<close>

fun is_create :: "timer_command \<Rightarrow> bool" where
  "is_create (TIMER_CREATE h p) = True"
| "is_create _ = False"

definition xTimerCreate :: "TickType_t \<Rightarrow> 'a world_scheme \<Rightarrow> nat \<times> 'a world_scheme" where
  "xTimerCreate xTimerPeriod w =
     (let h = Suc (length (filter is_create (timer_commands w)))
      in (h, w\<lparr>timer_commands := timer_commands w @ [TIMER_CREATE h xTimerPeriod]\<rparr>))"

definition xTimerStart :: "nat \<Rightarrow> 'a world_scheme \<Rightarrow> 'a world_scheme" where
  "xTimerStart h w = w\<lparr>timer_commands := timer_commands w @ [TIMER_START h]\<rparr>"

definition xTimerStop :: "nat \<Rightarrow> 'a world_scheme \<Rightarrow> 'a world_scheme" where
  "xTimerStop h w = w\<lparr>timer_commands := timer_commands w @ [TIMER_STOP h]\<rparr>"

definition xTimerDelete :: "nat \<Rightarrow> 'a world_scheme \<Rightarrow> 'a world_scheme" where
  "xTimerDelete h w = w\<lparr>timer_commands := timer_commands w @ [TIMER_DELETE h]\<rparr>"

definition vLedToggleEnable :: "TickType_t \<Rightarrow> 'a world_scheme \<Rightarrow> 'a world_scheme" where
  "vLedToggleEnable ulToggleDuration w =
     (case pxLedToggleTimer w of
        None \<Rightarrow>
          (case xTimerCreate ulToggleDuration w of
             (h, w') \<Rightarrow> xTimerStart h (w'\<lparr>pxLedToggleTimer := Some h\<rparr>))
      | Some h \<Rightarrow> xTimerStart h w)"

definition vLedToggleDisable :: "'a world_scheme \<Rightarrow> 'a world_scheme" where
  "vLedToggleDisable w =
     (case pxLedToggleTimer w of
        Some h \<Rightarrow> (xTimerStop h w)\<lparr>led_on := False\<rparr>
      | None \<Rightarrow> w)"

subsection \<open>vManageAppSleep and USART2_IRQHandler\<close>

text \<open>
  \<^verbatim>\<open>vManageAppSleep\<close> up to its \<^verbatim>\<open>xTaskNotifyWait\<close>, where the Main Menu task blocks.
\<close>

definition vManageAppSleep_enter :: "'a world_scheme \<Rightarrow> 'a world_scheme" where
  "vManageAppSleep_enter w0 =
     (let w = (case pxLedToggleTimer w0 of
                 Some h \<Rightarrow> xTimerDelete h (vLedToggleDisable w0)
               | None \<Rightarrow> w0);
          w = w\<lparr>xRunTempMonitor := False\<rparr>;
          w = w\<lparr>usart2_rxne_interrupt := True\<rparr>;
          w = w\<lparr>xGoToSleep := True\<rparr>
      in xQueueSend WENT_TO_SLEEP w)"

text \<open>
  \<^verbatim>\<open>vManageAppSleep\<close> after the wait has returned: the wake-up message is posted (the UART
  write task, of higher priority, runs at this point), then the receive interrupt is
  disabled.
\<close>

definition vManageAppSleep_woken :: "'a world_scheme \<Rightarrow> 'a world_scheme" where
  "vManageAppSleep_woken w = xQueueSend WOKE_UP w"

definition vManageAppSleep_leave :: "'a world_scheme \<Rightarrow> 'a world_scheme" where
  "vManageAppSleep_leave w = w\<lparr>usart2_rxne_interrupt := False\<rparr>"

text \<open>
  The handler. Its local \<^verbatim>\<open>pxIsMainMenuTaskHigherPriority\<close> is a pointer to a \<^verbatim>\<open>BaseType_t\<close>:
  \<open>None\<close> is \<^verbatim>\<open>NULL\<close>, \<open>Some v\<close> the address of a flag that holds \<open>v\<close>. \<^verbatim>\<open>xTaskNotifyFromISR\<close>
  sets the notification and stores \<^verbatim>\<open>pdTRUE\<close> through the pointer, when the pointer is not
  null, if the notified task outranks the interrupted one (the Main Menu task outranks the
  idle task that runs while the application sleeps).
\<close>

definition xTaskNotifyFromISR ::
  "task \<Rightarrow> BaseType_t option \<Rightarrow> 'a world_scheme \<Rightarrow> BaseType_t option \<times> 'a world_scheme"
where
  "xTaskNotifyFromISR t pxHigherPriorityTaskWoken w =
     (map_option (\<lambda>v. True) pxHigherPriorityTaskWoken, xTaskNotify t w)"

text \<open>
  The statements of \<^verbatim>\<open>USART2_IRQHandler\<close> before its \<^verbatim>\<open>if\<close>: the pointer is initialised to
  \<^verbatim>\<open>NULL\<close>, the pending bit is cleared (no variable of the model changes), \<^verbatim>\<open>xGoToSleep\<close> is
  reset and the Main Menu task is notified with the pointer as last argument.
\<close>

definition USART2_IRQHandler_notify ::
  "'a world_scheme \<Rightarrow> BaseType_t option \<times> 'a world_scheme" where
  "USART2_IRQHandler_notify w =
     (let pxIsMainMenuTaskHigherPriority = None
      in xTaskNotifyFromISR MainMenuTask pxIsMainMenuTaskHigherPriority
           (w\<lparr>xGoToSleep := False\<rparr>))"

text \<open>
  The whole handler: the \<^verbatim>\<open>if\<close> reads \<^verbatim>\<open>*pxIsMainMenuTaskHigherPriority\<close>. A read through a
  null pointer is a fault; \<^verbatim>\<open>taskYIELD\<close> changes no variable of the model.
\<close>

definition USART2_IRQHandler :: "'a world_scheme \<Rightarrow> 'a world_scheme outcome" where
  "USART2_IRQHandler w0 =
     (case USART2_IRQHandler_notify w0 of
        (pxIsMainMenuTaskHigherPriority, w) \<Rightarrow>
          (case pxIsMainMenuTaskHigherPriority of
             None \<Rightarrow> Faults NullPointerDereference
           | Some v \<Rightarrow> Returns w))"

subsection \<open>vTempMonitorTaskFunction\<close>







text \<open>
  The state when \<^verbatim>\<open>main\<close> starts the scheduler: the globals have their initialisers, the queue
  is empty, no notification is pending, and \<^verbatim>\<open>vRtcSetup\<close> has set the time 17:00:00 and the
  date Thursday 3-12-20. The tick period and the answer of the RTC are parameters of the
  build and of the board; here 1 ms and an RTC that accepts writes.
\<close>

definition scheduler_start :: world where
  "scheduler_start =
     \<lparr>xTickCount = 0, ticks_30000ms = 30000, rx_pending = [], xUartWriteQueue = [],
      rtc_accepts = True,
      rtc_writes = [SetTime \<lparr>RTC_Hours = 17, RTC_Minutes = 0, RTC_Seconds = 0\<rparr>,
                    SetDate \<lparr>RTC_WeekDay = 4, RTC_Month = 12, RTC_Date = 3, RTC_Year = 20\<rparr>],
      ticks_500ms = 500,
      xGoToSleep = False, xShowTemps = False, xRunTempMonitor = False,
      pxLedToggleTimer = None, timer_commands = [], led_on = False,
      usart2_rxne_interrupt = False, notified = (\<lambda>t. False)\<rparr>"

text \<open>
  \<^verbatim>\<open>xTaskNotifyWait\<close> returning to a task whose notification is pending: the pending bit is
  cleared.
\<close>

definition xTaskNotifyWait_returns :: "task \<Rightarrow> 'a world_scheme \<Rightarrow> 'a world_scheme" where
  "xTaskNotifyWait_returns t w = w\<lparr>notified := (notified w)(t := False)\<rparr>"

text \<open>
  What the Main Menu task does with the LED timer: it enables the toggle, disables it, or
  goes through \<^verbatim>\<open>vManageAppSleep\<close> from entry to return (the handler's notification wakes it
  in between). No other function of main.c reads or writes \<^verbatim>\<open>pxLedToggleTimer\<close> or calls the
  timer service.
\<close>

datatype led_action = LedToggleEnable TickType_t | LedToggleDisable | AppSleep

fun do_led_action :: "led_action \<Rightarrow> world \<Rightarrow> world" where
  "do_led_action (LedToggleEnable ulToggleDuration) w = vLedToggleEnable ulToggleDuration w"
| "do_led_action LedToggleDisable w = vLedToggleDisable w"
| "do_led_action AppSleep w =
     vManageAppSleep_leave
       (vManageAppSleep_woken
          (xTaskNotifyWait_returns MainMenuTask
             (snd (USART2_IRQHandler_notify (vManageAppSleep_enter w)))))"

fun do_led_actions :: "led_action list \<Rightarrow> world \<Rightarrow> world" where
  "do_led_actions [] w = w"
| "do_led_actions (a # as) w = do_led_actions as (do_led_action a w)"

subsection \<open>The Main Menu task and the handoff to the sub-applications\<close>

text \<open>
  \<^verbatim>\<open>xTaskNotifyWait(0, 0, NULL, portMAX_DELAY)\<close> called by task \<open>t\<close>: with a notification
  pending it returns at once and clears it; with none the task blocks (\<open>None\<close>) until one
  is sent.
\<close>

definition xTaskNotifyWait :: "task \<Rightarrow> 'a world_scheme \<Rightarrow> 'a world_scheme option" where
  "xTaskNotifyWait t w = (if notified w t then Some (xTaskNotifyWait_returns t w) else None)"

text \<open>\<^verbatim>\<open>vTaskDelay\<close>: the calling task resumes that many ticks later.\<close>

definition vTaskDelay :: "TickType_t \<Rightarrow> 'a world_scheme \<Rightarrow> 'a world_scheme" where
  "vTaskDelay xTicksToDelay w = w\<lparr>xTickCount := xTickCount w + unat xTicksToDelay\<rparr>"

text \<open>
  \<^verbatim>\<open>ucAppSelected = cUartMsg[0] - 48\<close> and \<^verbatim>\<open>ucOptionSelected = cUartMsg[0] - 48\<close>, in
  \<^verbatim>\<open>uint8_t\<close>.
\<close>

definition option_selected :: "string \<Rightarrow> uint8_t" where
  "option_selected cUartMsg = of_char (first_byte cUartMsg) - 48"

definition vManageLedToggle :: "'a world_scheme \<Rightarrow> 'a world_scheme outcome" where
  "vManageLedToggle w0 =
     bind_outcome (xReceiveUartMsg 50 (xQueueSend LED_TOGGLE_PROMPT w0) False)
       (\<lambda>(xReadSuccess, xQuitCurrentApp, cUartMsg, w).
          if xReadSuccess \<and> \<not> xQuitCurrentApp then
            (if first_byte cUartMsg = CHR ''y'' \<or> first_byte cUartMsg = CHR ''Y''
             then Returns (vLedToggleEnable (ticks_500ms w) w)
             else if first_byte cUartMsg = CHR ''n'' \<or> first_byte cUartMsg = CHR ''N''
             then Returns (vLedToggleDisable w)
             else Returns w)
          else Returns w)"

definition vManageTempMonitor :: "'a world_scheme \<Rightarrow> 'a world_scheme outcome" where
  "vManageTempMonitor w0 =
     bind_outcome (xReceiveUartMsg 150 (xQueueSend TEMP_MONITOR_MENU w0) False)
       (\<lambda>(xReadSuccess, xQuitCurrentApp, cUartMsg, w).
          if xReadSuccess \<and> \<not> xQuitCurrentApp then
            (if option_selected cUartMsg = 1 then
               Returns (vTaskDelay (ticks_500ms w)
                          (xQueueSend TEMP_MONITOR_STARTED (xTaskNotify TempMonitorTask w)))
             else if option_selected cUartMsg = 2 then
               (if \<not> xRunTempMonitor w
                then Returns (xQueueSend TEMP_MONITOR_NOT_STARTED w)
                else Returns (vTaskDelay (ticks_500ms w) (w\<lparr>xShowTemps := True\<rparr>)))
             else if option_selected cUartMsg = 3 then
               Returns (xQueueSend TEMP_MONITOR_STOPPED (w\<lparr>xRunTempMonitor := False\<rparr>))
             else Returns (xQueueSend TEMP_MONITOR_UNRECOGNIZED_OPTION w))
          else Returns w)"

text \<open>
  Where the Main Menu task can be when another task or an interrupt handler runs: at the
  head of its loop; in the \<^verbatim>\<open>xTaskNotifyWait\<close> that follows the notification of a
  sub-application; in the \<^verbatim>\<open>xTaskNotifyWait\<close> of \<^verbatim>\<open>vManageAppSleep\<close>; or in \<^verbatim>\<open>vManageAppSleep\<close>
  after that wait has returned and the wake-up message is posted, before the receive
  interrupt is disabled (the UART write task, of higher priority, transmits the message at
  this point).
\<close>

datatype main_menu_pc = AT_LOOP_HEAD | WAITING_FOR_RETURN | WAITING_FOR_WAKE | WOKEN

text \<open>
  The three exclusive sub-applications, each with its task: \<^verbatim>\<open>vClockTaskFunction\<close>,
  \<^verbatim>\<open>vGameTaskFunction\<close> and \<^verbatim>\<open>vCalculatorTaskFunction\<close>.
\<close>

datatype sub_application = CLOCK | GAME | CALCULATOR

fun task_of :: "sub_application \<Rightarrow> task" where
  "task_of CLOCK = ClockTask"
| "task_of GAME = GameTask"
| "task_of CALCULATOR = CalculatorTask"

text \<open>
  The application with its tasks: the globals, the place of the Main Menu task, and for
  each sub-application whether its task is running its loop (\<open>True\<close>) or is in its
  \<^verbatim>\<open>xTaskNotifyWait\<close> (\<open>False\<close>; each task function starts with that call).
\<close>

record system = world +
  main_menu_pc :: main_menu_pc
  running :: "sub_application \<Rightarrow> bool"

text \<open>
  The \<^verbatim>\<open>switch\<close> of \<^verbatim>\<open>vMainMenuTaskFunction\<close>. The three sub-application cases notify the task
  and go to the wait; the sleep case runs \<^verbatim>\<open>vManageAppSleep\<close> up to its wait.
\<close>

definition vMainMenuTaskFunction_switch :: "uint8_t \<Rightarrow> system \<Rightarrow> system outcome" where
  "vMainMenuTaskFunction_switch ucAppSelected s =
     (if ucAppSelected = 1
      then Returns ((xTaskNotify ClockTask s)\<lparr>main_menu_pc := WAITING_FOR_RETURN\<rparr>)
      else if ucAppSelected = 2
      then Returns ((xTaskNotify GameTask s)\<lparr>main_menu_pc := WAITING_FOR_RETURN\<rparr>)
      else if ucAppSelected = 3
      then Returns ((xTaskNotify CalculatorTask s)\<lparr>main_menu_pc := WAITING_FOR_RETURN\<rparr>)
      else if ucAppSelected = 4 then vManageTempMonitor s
      else if ucAppSelected = 5 then vManageLedToggle s
      else if ucAppSelected = 6
      then Returns ((vManageAppSleep_enter s)\<lparr>main_menu_pc := WAITING_FOR_WAKE\<rparr>)
      else Returns (xQueueSend UNRECOGNIZED_OPTION s))"

text \<open>
  The Main Menu task runs from where it is to the next of the four places. At the head of
  the loop this is one pass of \<^verbatim>\<open>while(1)\<close>: the menu is posted, a line is read, and a
  successful read without a quit goes through the \<^verbatim>\<open>switch\<close>. In a wait, the task goes on
  only if a notification is pending for it.
\<close>

definition vMainMenuTaskFunction_runs :: "system \<Rightarrow> system outcome" where
  "vMainMenuTaskFunction_runs s =
     (case main_menu_pc s of
        AT_LOOP_HEAD \<Rightarrow>
          bind_outcome (xReceiveUartMsg 50 (xQueueSend MENU s) False)
            (\<lambda>(xReadSuccess, xQuitCurrentApp, cUartMsg, s).
               if xReadSuccess \<and> \<not> xQuitCurrentApp
               then vMainMenuTaskFunction_switch (option_selected cUartMsg) s
               else Returns s)
      | WAITING_FOR_RETURN \<Rightarrow>
          (case xTaskNotifyWait MainMenuTask s of
             Some s' \<Rightarrow> Returns (s'\<lparr>main_menu_pc := AT_LOOP_HEAD\<rparr>)
           | None \<Rightarrow> Returns s)
      | WAITING_FOR_WAKE \<Rightarrow>
          (case xTaskNotifyWait MainMenuTask s of
             Some s' \<Rightarrow> Returns ((vManageAppSleep_woken s')\<lparr>main_menu_pc := WOKEN\<rparr>)
           | None \<Rightarrow> Returns s)
      | WOKEN \<Rightarrow> Returns ((vManageAppSleep_leave s)\<lparr>main_menu_pc := AT_LOOP_HEAD\<rparr>))"

text \<open>
  A sub-application task. In its wait it goes on only if a notification is pending for it.
  Running, it makes a pass of its loop; the prompts and reads of the pass change the console
  and the clock only, and the pass ends in the same code in the three task functions:
  \<^verbatim>\<open>if (xQuitCurrentApp == pdTRUE)\<close> the Main Menu task is notified and the task goes back to
  its wait. The value of the flag at the end of the pass is an argument.
\<close>

definition sub_application_runs :: "sub_application \<Rightarrow> BaseType_t \<Rightarrow> system \<Rightarrow> system" where
  "sub_application_runs a xQuitCurrentApp s =
     (if \<not> running s a then
        (case xTaskNotifyWait (task_of a) s of
           Some s' \<Rightarrow> s'\<lparr>running := (running s')(a := True)\<rparr>
         | None \<Rightarrow> s)
      else if xQuitCurrentApp
      then (xTaskNotify MainMenuTask s)\<lparr>running := (running s)(a := False)\<rparr>
      else s)"

text \<open>
  A byte arrives at USART2. With the receive interrupt enabled the handler runs: its
  statements up to the notification take effect. (Its last statement reads through a null
  pointer; the Cortex-M4 of the board maps address 0 and the read returns the first word of
  the boot memory, an initial stack pointer and never \<^verbatim>\<open>pdTRUE\<close>, so the handler returns.)
  With the interrupt disabled the byte waits in the receive register for the polling read
  of \<open>xReceiveUartMsg\<close>, which \<open>rx_pending\<close> accounts for.
\<close>

definition usart2_byte_received :: "system \<Rightarrow> system" where
  "usart2_byte_received s =
     (if usart2_rxne_interrupt s then snd (USART2_IRQHandler_notify s) else s)"

text \<open>
  What happens next is chosen by the scheduler and the terminal: the Main Menu task runs, a
  sub-application task runs (and its pass ends with the given quit flag), or a byte
  arrives.
\<close>

datatype event =
  MainMenuRuns | SubApplicationRuns sub_application BaseType_t | Usart2ByteReceived

fun step :: "event \<Rightarrow> system \<Rightarrow> system outcome" where
  "step MainMenuRuns s = vMainMenuTaskFunction_runs s"
| "step (SubApplicationRuns a xQuitCurrentApp) s =
     Returns (sub_application_runs a xQuitCurrentApp s)"
| "step Usart2ByteReceived s = Returns (usart2_byte_received s)"

fun run :: "event list \<Rightarrow> system \<Rightarrow> system outcome" where
  "run [] s = Returns s"
| "run (e # es) s = bind_outcome (step e s) (run es)"

text \<open>
  The system when the scheduler starts: the Main Menu task at the head of its loop, the
  sub-application tasks about to wait, and the given lines on their way from the terminal.
\<close>

definition system_start :: "(nat \<times> char) list \<Rightarrow> system" where
  "system_start rx =
     world.extend (scheduler_start\<lparr>rx_pending := rx\<rparr>)
       \<lparr>main_menu_pc = AT_LOOP_HEAD, running = (\<lambda>a. False)\<rparr>"

text \<open>
  The handoff as a token. A pending notification for the Main Menu task is one token; a
  sub-application holds one token for a pending notification and one for running.
\<close>

definition sub_tokens :: "system \<Rightarrow> nat" where
  "sub_tokens s =
     sum_list (map (\<lambda>a. (if notified s (task_of a) then 1 else 0) + (if running s a then 1 else 0))
       [CLOCK, GAME, CALCULATOR])"

definition tokens :: "system \<Rightarrow> nat" where
  "tokens s = (if notified s MainMenuTask then 1 else 0) + sub_tokens s"

text \<open>
  The handoff is in order when the receive interrupt is enabled only inside
  \<^verbatim>\<open>vManageAppSleep\<close> and the tokens are where the place of the Main Menu task wants them:
  one token in all while it waits for a sub-application to return, none with the
  sub-applications while it sleeps, none at all elsewhere.
\<close>

definition handoff_ok :: "system \<Rightarrow> bool" where
  "handoff_ok s =
     ((if usart2_rxne_interrupt s
       then main_menu_pc s = WAITING_FOR_WAKE \<or> main_menu_pc s = WOKEN else True) \<and>
      (case main_menu_pc s of
         WAITING_FOR_RETURN \<Rightarrow> tokens s = 1
       | WAITING_FOR_WAKE \<Rightarrow> sub_tokens s = 0
       | AT_LOOP_HEAD \<Rightarrow> tokens s = 0
       | WOKEN \<Rightarrow> tokens s = 0))"

text \<open>
  The states reached from the start when no byte arrives in the window of
  \<^verbatim>\<open>vManageAppSleep\<close> between the return of its wait and the disabling of the interrupt.
\<close>

inductive reached_without_late_byte :: "system \<Rightarrow> bool" where
  at_start: "reached_without_late_byte (system_start rx)"
| after_step:
    "reached_without_late_byte s \<Longrightarrow> step e s = Returns s' \<Longrightarrow>
     (if e = Usart2ByteReceived then main_menu_pc s \<noteq> WOKEN else True) \<Longrightarrow>
     reached_without_late_byte s'"

text \<open>Two states that agree on everything the handoff depends on.\<close>

definition same_handoff :: "system \<Rightarrow> system \<Rightarrow> bool" where
  "same_handoff s s' =
     (notified s' MainMenuTask = notified s MainMenuTask \<and>
      list_all (\<lambda>a. notified s' (task_of a) = notified s (task_of a)) [CLOCK, GAME, CALCULATOR] \<and>
      running s' = running s \<and> main_menu_pc s' = main_menu_pc s \<and>
      usart2_rxne_interrupt s' = usart2_rxne_interrupt s)"

section \<open>Properties\<close>

subsection \<open>Digits\<close>

lemma digit_le9: "is_digit c \<Longrightarrow> (of_char c :: nat) - 48 \<le> 9"
  unfolding is_digit_def by linarith

lemma digit_ge48: "is_digit c \<Longrightarrow> 48 \<le> (of_char c :: nat)"
  unfolding is_digit_def by linarith

lemma digit_pos:
  assumes d: "is_digit c" and n: "c \<noteq> CHR ''0''"
  shows "0 < (of_char c :: nat) - 48"
proof -
  have "(of_char c :: nat) \<noteq> 48"
  proof
    assume "(of_char c :: nat) = 48"
    then have "char_of (of_char c :: nat) = char_of (48 :: nat)" by simp
    then have "c = CHR ''0''" by (simp add: char_of_eq_iff)
    with n show False by simp
  qed
  with digit_ge48 [OF d] show ?thesis by linarith
qed

lemma char_of_digit: "is_digit c \<Longrightarrow> char_of (48 + ((of_char c :: nat) - 48)) = c"
  by (simp add: digit_ge48)

lemma loop_digits:
  "list_all is_digit cs \<Longrightarrow>
   lUartMsgtoInt32_loop cs i (of_nat acc) = (i + length cs, of_nat (digits_val cs acc))"
proof (induction cs arbitrary: i acc)
  case Nil
  then show ?case by simp
next
  case (Cons c cs)
  have d: "48 \<le> (of_char c :: nat)" using Cons.prems by (simp add: digit_ge48)
  have eq: "(of_nat acc * 10 + (of_char c - 48) :: int32_t) = of_nat (acc * 10 + (of_char c - 48))"
    using d by (simp add: of_nat_diff of_nat_of_char)
  have "lUartMsgtoInt32_loop (c # cs) i (of_nat acc) =
        lUartMsgtoInt32_loop cs (i + 1) (of_nat acc * 10 + (of_char c - 48))"
    using Cons.prems by simp
  also have "\<dots> = lUartMsgtoInt32_loop cs (i + 1) (of_nat (acc * 10 + (of_char c - 48)))"
    by (simp only: eq)
  also have "\<dots> = (i + 1 + length cs, of_nat (digits_val cs (acc * 10 + (of_char c - 48))))"
    using Cons.prems by (intro Cons.IH) simp
  finally show ?case by simp
qed

lemma digits_val_snoc:
  "digits_val (cs @ [c]) acc = digits_val cs acc * 10 + (of_char c - 48)"
  by (induction cs arbitrary: acc) auto

lemma digits_val_bound:
  "list_all is_digit cs \<Longrightarrow> digits_val cs acc < (acc + 1) * 10 ^ length cs"
proof (induction cs arbitrary: acc)
  case Nil
  then show ?case by simp
next
  case (Cons c cs)
  have d: "(of_char c :: nat) - 48 \<le> 9" using Cons.prems by (simp add: digit_le9)
  have "digits_val cs (acc * 10 + (of_char c - 48))
          < (acc * 10 + (of_char c - 48) + 1) * 10 ^ length cs"
    using Cons by simp
  also have "\<dots> \<le> ((acc + 1) * 10) * 10 ^ length cs"
    using d by (intro mult_right_mono) auto
  finally show ?case by (simp add: algebra_simps)
qed

lemma dec_digits_inverse:
  "cs \<noteq> [] \<Longrightarrow> list_all is_digit cs \<Longrightarrow> hd cs \<noteq> CHR ''0'' \<Longrightarrow>
   0 < digits_val cs 0 \<and> dec_digits (digits_val cs 0) = cs"
proof (induction cs rule: rev_induct)
  case Nil
  then show ?case by simp
next
  case (snoc c cs)
  have dc: "is_digit c" using snoc.prems by simp
  then have c9: "(of_char c :: nat) - 48 \<le> 9" by (rule digit_le9)
  show ?case
  proof (cases "cs = []")
    case True
    then have "c \<noteq> CHR ''0''" using snoc.prems by simp
    with dc have pos: "0 < (of_char c :: nat) - 48" by (rule digit_pos)
    show ?thesis using True pos c9 char_of_digit [OF dc]
      by (simp add: dec_digits.simps)
  next
    case False
    then have "list_all is_digit cs" "hd cs \<noteq> CHR ''0''" using snoc.prems by auto
    with False snoc.IH have ih: "0 < digits_val cs 0" "dec_digits (digits_val cs 0) = cs"
      by auto
    let ?n = "digits_val cs 0 * 10 + ((of_char c :: nat) - 48)"
    have "\<not> ?n < 10" using ih(1) by simp
    moreover have "?n div 10 = digits_val cs 0" "?n mod 10 = of_char c - 48"
      using c9 by auto
    ultimately have "dec_digits ?n = cs @ [c]"
      using ih(2) char_of_digit [OF dc] by (subst dec_digits.simps) simp
    then show ?thesis using ih(1) by (simp add: digits_val_snoc)
  qed
qed

lemma dec_digits_single: "is_digit c \<Longrightarrow> dec_digits (digits_val [c] 0) = [c]"
  using digit_le9 [of c] char_of_digit [of c] by (simp add: dec_digits.simps)

lemma parse_value:
  assumes "cs \<noteq> []" "list_all is_digit cs" "length cs \<le> 9"
  shows "sint (lUartMsgtoInt32 cs) = int (digits_val cs 0)"
proof -
  have "lUartMsgtoInt32_loop cs 0 (of_nat 0) = (0 + length cs, of_nat (digits_val cs 0))"
    using assms(2) by (rule loop_digits)
  then have v: "lUartMsgtoInt32 cs = of_nat (digits_val cs 0)"
    using assms(1) by (simp add: lUartMsgtoInt32_def)
  have "digits_val cs 0 < (0 + 1) * 10 ^ length cs"
    using assms(2) by (rule digits_val_bound)
  also have "\<dots> = 10 ^ length cs" by simp
  also have "\<dots> \<le> (10::nat) ^ 9" using assms(3) by (intro power_increasing) auto
  finally have b: "digits_val cs 0 < 2 ^ 31" by simp
  have "sint (of_nat (digits_val cs 0) :: int32_t) = signed_take_bit 31 (int (digits_val cs 0))"
    by (simp add: signed_of_nat)
  also have "\<dots> = int (digits_val cs 0)"
    using b by (intro signed_take_bit_int_eq_self) auto
  finally show ?thesis using v by simp
qed

subsection \<open>C8: parsing and printing a digit string\<close>

text \<open>
  C8, as stated: every string of 1 to 9 decimal digits, parsed with \<open>lUartMsgtoInt32\<close> and
  printed back in decimal, gives the original string. It fails on a leading zero: the
  string 007 is three digits, parses to 7 and prints as 7.
\<close>

theorem C8_roundtrip_counterexample:
  "1 \<le> length ''007'' \<and> length ''007'' \<le> 9 \<and> list_all is_digit ''007'' \<and>
   sprintf_ld (lUartMsgtoInt32 ''007'') = ''7'' \<and> ''7'' \<noteq> ''007''"
  by (simp add: lUartMsgtoInt32_def sprintf_ld_def is_digit_def dec_digits.simps char_of_eq_iff)

text \<open>
  C8, amended: every string of 1 to 9 decimal digits that has no leading zero (the
  one-digit string 0 included), parsed with \<open>lUartMsgtoInt32\<close> and printed back with
  \<^verbatim>\<open>%ld\<close>, gives exactly the original string.
\<close>

theorem C8_roundtrip:
  assumes "1 \<le> length cs" and "length cs \<le> 9" and "list_all is_digit cs"
      and "length cs = 1 \<or> hd cs \<noteq> CHR ''0''"
  shows "sprintf_ld (lUartMsgtoInt32 cs) = cs"
proof -
  have ne: "cs \<noteq> []" using assms(1) by auto
  have s: "sint (lUartMsgtoInt32 cs) = int (digits_val cs 0)"
    using ne assms(3) assms(2) by (rule parse_value)
  then have p: "sprintf_ld (lUartMsgtoInt32 cs) = dec_digits (digits_val cs 0)"
    by (simp add: sprintf_ld_def)
  show ?thesis
  proof (cases "hd cs = CHR ''0''")
    case True
    with assms(4) have "length cs = 1" by simp
    then obtain c where c: "cs = [c]" by (cases cs) auto
    with assms(3) have "is_digit c" by simp
    then have "dec_digits (digits_val [c] 0) = [c]" by (rule dec_digits_single)
    with p c show ?thesis by simp
  next
    case False
    with ne assms(3) have "dec_digits (digits_val cs 0) = cs"
      using dec_digits_inverse by blast
    with p show ?thesis by simp
  qed
qed

theorem C8_roundtrip_witness:
  "1 \<le> length ''120'' \<and> length ''120'' \<le> 9 \<and> list_all is_digit ''120'' \<and>
   hd ''120'' \<noteq> CHR ''0'' \<and> sprintf_ld (lUartMsgtoInt32 ''120'') = ''120''"
proof -
  have d: "list_all is_digit ''120''" by (simp add: is_digit_def)
  have "sprintf_ld (lUartMsgtoInt32 ''120'') = ''120''"
    using d by (intro C8_roundtrip) simp_all
  with d show ?thesis by simp
qed

subsection \<open>The tick count and the deadline\<close>

lemma tick_before_deadline:
  assumes "start \<le> now" and "now < start + unat T" and "start mod 2 ^ 32 + unat T < 2 ^ 32"
  shows "xTaskGetTickCount now < xTaskGetTickCount start + (T :: TickType_t)"
proof -
  obtain d where d: "now = start + d" "d < unat T"
    using assms(1,2) by (metis le_Suc_ex nat_add_left_cancel_less)
  have s: "unat (of_nat start :: TickType_t) = start mod 2 ^ 32"
    by (simp add: unat_of_nat)
  have "unat (of_nat start + T :: TickType_t) = (start mod 2 ^ 32 + unat T) mod 2 ^ 32"
    using s by (simp add: unat_word_ariths)
  then have dl: "unat (of_nat start + T :: TickType_t) = start mod 2 ^ 32 + unat T"
    using assms(3) by simp
  have "unat (of_nat now :: TickType_t) = now mod 2 ^ 32"
    by (subst unat_of_nat) simp
  also have "\<dots> = (start mod 2 ^ 32 + d) mod 2 ^ 32"
    using d(1) by (simp add: mod_add_left_eq)
  also have "\<dots> = start mod 2 ^ 32 + d" using d(2) assms(3) by simp
  finally have "unat (of_nat now :: TickType_t) < unat (of_nat start + T :: TickType_t)"
    using dl d(2) by simp
  then show ?thesis by (simp add: xTaskGetTickCount_def word_less_nat_alt)
qed

text \<open>
  The loop on a line: bytes other than the carriage return that fit in the buffer and arrive
  before the deadline, then the carriage return (whenever it arrives).
\<close>

lemma loop_line:
  assumes "CR \<notin> set line" and "length buf + length line \<le> cap" and "length ts = length line"
      and "list_all (\<lambda>t. t < start + unat T) ts"
      and "start \<le> now" and "now < start + unat T"
      and "start mod 2 ^ 32 + unat T < 2 ^ 32"
  shows "xReceiveUartMsg_loop (xTaskGetTickCount start + T) cap (zip ts line @ (tcr, CR) # rest)
           now prev buf quit =
         Returns (max (foldl max now ts) tcr, rest, buf @ line,
           (if last (prev # line) = CHR ''q'' \<or> last (prev # line) = CHR ''Q''
            then True else quit))"
  using assms
proof (induction line arbitrary: ts now prev buf)
  case Nil
  then show ?case by (simp add: tick_before_deadline)
next
  case (Cons b line)
  then obtain t ts' where ts: "ts = t # ts'" by (cases ts) auto
  have b: "b \<noteq> CR" using Cons.prems(1) by auto
  have room: "length buf < cap" using Cons.prems(2) by simp
  have chk: "xTaskGetTickCount now < xTaskGetTickCount start + T"
    using Cons.prems(5,6,7) by (rule tick_before_deadline)
  have t: "t < start + unat T" using Cons.prems(4) ts by simp
  have ih: "xReceiveUartMsg_loop (xTaskGetTickCount start + T) cap
              (zip ts' line @ (tcr, CR) # rest) (max now t) b (buf @ [b]) quit =
            Returns (max (foldl max (max now t) ts') tcr, rest, (buf @ [b]) @ line,
              (if last (b # line) = CHR ''q'' \<or> last (b # line) = CHR ''Q''
               then True else quit))"
    using Cons.prems ts t by (intro Cons.IH) auto
  show ?case using ts b room chk ih by simp
qed

subsection \<open>C2: the timeout of xReceiveUartMsg\<close>

text \<open>
  C2 says that a call during which no input arrives before the deadline returns
  \<^verbatim>\<open>pdFALSE\<close> and posts one timeout notice. The function tests the deadline only between two
  bytes: inside the loop it spins on RXNE with no test of the tick count. When the terminal
  sends nothing at all the call never returns, and nothing is posted.
\<close>

theorem C2_no_input_never_returns:
  "xReceiveUartMsg 50
     \<lparr>xTickCount = 0, ticks_30000ms = 30000, rx_pending = [], xUartWriteQueue = []\<rparr> False =
   NeverReturns"
  by (simp add: xReceiveUartMsg_def xTaskGetTickCount_def)

subsection \<open>C3: the quit flag\<close>

text \<open>
  C3, as stated: the quit flag is set for the lines q and Q only, and left false for every
  other line, longer lines that end in q or Q included. The function compares only the byte
  received just before the carriage return: the line aq sets the flag.
\<close>

theorem C3_quit_flag_counterexample:
  "xReceiveUartMsg 50
     \<lparr>xTickCount = 0, ticks_30000ms = 30000,
      rx_pending = [(10, CHR ''a''), (20, CHR ''q''), (30, CR)], xUartWriteQueue = []\<rparr> False =
   Returns (True, True, ''aq'',
     \<lparr>xTickCount = 30, ticks_30000ms = 30000, rx_pending = [], xUartWriteQueue = []\<rparr>)
   \<and> ''aq'' \<noteq> ''q'' \<and> ''aq'' \<noteq> ''Q''"
  by (simp add: CR_def xReceiveUartMsg_def xTaskGetTickCount_def)

text \<open>
  C3, amended: for every line read by \<open>xReceiveUartMsg\<close> (bytes other than the carriage
  return that fit in the caller's buffer and arrive before the deadline, then the carriage
  return), the quit flag is set to true when the last byte before the carriage return is
  q or Q, whatever precedes it, and is left as the caller passed it otherwise (for the empty
  line too). The deadline is the one the function computes, on a tick count that does not
  wrap around during the call.
\<close>

theorem C3_quit_flag:
  assumes "CR \<notin> set line" and "length line \<le> cap" and "length ts = length line"
      and "list_all (\<lambda>t. t < xTickCount w + unat (ticks_30000ms w)) ts"
      and "0 < unat (ticks_30000ms w)"
      and "xTickCount w mod 2 ^ 32 + unat (ticks_30000ms w) < 2 ^ 32"
      and "rx_pending w = zip ts line @ (tcr, CR) # rest"
  shows "\<exists>ok w'. xReceiveUartMsg cap w quit =
           Returns (ok,
             (if line \<noteq> [] \<and> (last line = CHR ''q'' \<or> last line = CHR ''Q'')
              then True else quit),
             line, w')"
proof -
  have l: "xReceiveUartMsg_loop (xTaskGetTickCount (xTickCount w) + ticks_30000ms w) cap
             (zip ts line @ (tcr, CR) # rest) (xTickCount w) (CHR 0x00) [] quit =
           Returns (max (foldl max (xTickCount w) ts) tcr, rest, [] @ line,
             (if last (CHR 0x00 # line) = CHR ''q'' \<or> last (CHR 0x00 # line) = CHR ''Q''
              then True else quit))"
    using assms(1-6) by (intro loop_line) auto
  show ?thesis
    using l assms(7) by (cases "line = []") (auto simp: xReceiveUartMsg_def Let_def)
qed

theorem C3_quit_flag_witness:
  "CR \<notin> set ''xyQ'' \<and> length ''xyQ'' \<le> (50::nat) \<and>
   list_all (\<lambda>t. t < 0 + unat (30000 :: TickType_t)) [10, 20, 25] \<and>
   (\<exists>ok w'. xReceiveUartMsg 50
      \<lparr>xTickCount = 0, ticks_30000ms = 30000,
       rx_pending = [(10, CHR ''x''), (20, CHR ''y''), (25, CHR ''Q''), (30, CR)],
       xUartWriteQueue = []\<rparr> False =
     Returns (ok, True, ''xyQ'', w'))"
  using C3_quit_flag [of "''xyQ''" 50 "[10, 20, 25]"
    "\<lparr>xTickCount = 0, ticks_30000ms = 30000,
      rx_pending = [(10, CHR ''x''), (20, CHR ''y''), (25, CHR ''Q''), (30, CR)],
      xUartWriteQueue = []\<rparr>" 30 "[]" False]
  by (simp add: CR_def)

subsection \<open>C4: the calculator divides without testing the divisor\<close>

lemma read_success_posts_nothing:
  "xReceiveUartMsg cap w q = Returns (True, q', m, w') \<Longrightarrow> xUartWriteQueue w' = xUartWriteQueue w"
  by (auto simp: xReceiveUartMsg_def Let_def split: outcome.splits if_splits)

text \<open>
  C4: when both reads succeed without a quit and give valid numbers, and the operator read
  succeeds without a quit and gives \<^verbatim>\<open>/\<close>, the pass computes \<^verbatim>\<open>lFirstNum / lSecondNum\<close> with no
  test of \<^verbatim>\<open>lSecondNum\<close>: a zero divisor reaches the division and faults, any other divisor
  gives the truncated quotient, posted as the result.
\<close>

theorem C4_division_unguarded:
  assumes "xReceiveUartMsg 50 (xQueueSend CALC_ENTER_FIRST w) False = Returns (True, False, m1, w1)"
      and "lUartMsgtoInt32 m1 \<noteq> INVALID_NUM"
      and "xReceiveUartMsg 50 (xQueueSend CALC_ENTER_SECOND w1) False = Returns (True, False, m2, w2)"
      and "lUartMsgtoInt32 m2 \<noteq> INVALID_NUM"
      and "xReceiveUartMsg 50 (xQueueSend CALC_ENTER_OPERATOR w2) False = Returns (True, False, m3, w3)"
      and "first_byte m3 = CHR ''/''"
  shows "vCalculatorTaskFunction_body w False =
           (if lUartMsgtoInt32 m2 = 0 then Faults DivideByZero
            else Returns (False,
                   post_calculated
                     (word_of_int (sint (lUartMsgtoInt32 m1) sdiv sint (lUartMsgtoInt32 m2))) w3))"
  using assms
  by (simp add: vCalculatorTaskFunction_body_def bind_outcome_def int32_div_def)

text \<open>The inputs 7, 0 and \<^verbatim>\<open>/\<close>: the pass ends in the division by zero.\<close>

theorem C4_division_unguarded_witness:
  "vCalculatorTaskFunction_body
     \<lparr>xTickCount = 0, ticks_30000ms = 30000,
      rx_pending = [(10, CHR ''7''), (20, CR), (30, CHR ''0''), (40, CR), (50, CHR ''/''), (60, CR)],
      xUartWriteQueue = []\<rparr> False = Faults DivideByZero"
  using C4_division_unguarded [of
     "\<lparr>xTickCount = 0, ticks_30000ms = 30000,
      rx_pending = [(10, CHR ''7''), (20, CR), (30, CHR ''0''), (40, CR), (50, CHR ''/''), (60, CR)],
      xUartWriteQueue = []\<rparr>"
     "''7''"
     "\<lparr>xTickCount = 20, ticks_30000ms = 30000,
      rx_pending = [(30, CHR ''0''), (40, CR), (50, CHR ''/''), (60, CR)],
      xUartWriteQueue = [CALC_ENTER_FIRST]\<rparr>"
     "''0''"
     "\<lparr>xTickCount = 40, ticks_30000ms = 30000,
      rx_pending = [(50, CHR ''/''), (60, CR)],
      xUartWriteQueue = [CALC_ENTER_FIRST, CALC_ENTER_SECOND]\<rparr>"
     "''/''"
     "\<lparr>xTickCount = 60, ticks_30000ms = 30000,
      rx_pending = [],
      xUartWriteQueue = [CALC_ENTER_FIRST, CALC_ENTER_SECOND, CALC_ENTER_OPERATOR]\<rparr>"]
  by (simp add: CR_def xReceiveUartMsg_def xTaskGetTickCount_def xQueueSend_def
        lUartMsgtoInt32_def is_digit_def INVALID_NUM_def first_byte_def)

subsection \<open>C6: what the calculator posts on an invalid input\<close>

lemma read_timeout_posts_notice:
  "xReceiveUartMsg cap w q = Returns (False, q', m, w') \<Longrightarrow>
   xUartWriteQueue w' = xUartWriteQueue w @ [USER_INPUT_TIMEOUT]"
  by (auto simp: xReceiveUartMsg_def Let_def xQueueSend_def split: outcome.splits if_splits)

text \<open>
  C6, amended: in a pass of the calculator loop, when the first or the second integer read
  succeeds without a quit and parses to \<open>INVALID_NUM\<close>, nothing is posted for it: the pass
  ends with the prompts issued so far as the only messages, and the loop restarts at its
  first prompt. An operator other than \<^verbatim>\<open>+ - * /\<close>, on a read that succeeds without a quit,
  does post a one-line notice before the loop restarts. And when one of the three reads
  returns \<^verbatim>\<open>pdFALSE\<close> (its deadline has passed), \<open>xReceiveUartMsg\<close> has posted exactly one
  timeout notice after the prompt, and the pass ends with nothing else posted.
\<close>

theorem C6_invalid_number_posts_nothing:
  "(xReceiveUartMsg 50 (xQueueSend CALC_ENTER_FIRST w) False = Returns (True, False, m1, w1) \<and>
    lUartMsgtoInt32 m1 = INVALID_NUM \<longrightarrow>
      vCalculatorTaskFunction_body w False = Returns (False, w1) \<and>
      xUartWriteQueue w1 = xUartWriteQueue w @ [CALC_ENTER_FIRST])
   \<and>
   (xReceiveUartMsg 50 (xQueueSend CALC_ENTER_FIRST w) False = Returns (True, False, m1, w1) \<and>
    lUartMsgtoInt32 m1 \<noteq> INVALID_NUM \<and>
    xReceiveUartMsg 50 (xQueueSend CALC_ENTER_SECOND w1) False = Returns (True, False, m2, w2) \<and>
    lUartMsgtoInt32 m2 = INVALID_NUM \<longrightarrow>
      vCalculatorTaskFunction_body w False = Returns (False, w2) \<and>
      xUartWriteQueue w2 = xUartWriteQueue w @ [CALC_ENTER_FIRST, CALC_ENTER_SECOND])
   \<and>
   (xReceiveUartMsg 50 (xQueueSend CALC_ENTER_FIRST w) False = Returns (True, False, m1, w1) \<and>
    lUartMsgtoInt32 m1 \<noteq> INVALID_NUM \<and>
    xReceiveUartMsg 50 (xQueueSend CALC_ENTER_SECOND w1) False = Returns (True, False, m2, w2) \<and>
    lUartMsgtoInt32 m2 \<noteq> INVALID_NUM \<and>
    xReceiveUartMsg 50 (xQueueSend CALC_ENTER_OPERATOR w2) False = Returns (True, False, m3, w3) \<and>
    first_byte m3 \<noteq> CHR ''+'' \<and> first_byte m3 \<noteq> CHR ''-'' \<and>
    first_byte m3 \<noteq> CHR ''*'' \<and> first_byte m3 \<noteq> CHR ''/'' \<longrightarrow>
      vCalculatorTaskFunction_body w False = Returns (False, xQueueSend UNRECOGNIZED_OPERATOR w3) \<and>
      xUartWriteQueue (xQueueSend UNRECOGNIZED_OPERATOR w3) =
        xUartWriteQueue w @
          [CALC_ENTER_FIRST, CALC_ENTER_SECOND, CALC_ENTER_OPERATOR, UNRECOGNIZED_OPERATOR])
   \<and>
   (xReceiveUartMsg 50 (xQueueSend CALC_ENTER_FIRST w) False = Returns (False, q, m1, w1) \<longrightarrow>
      vCalculatorTaskFunction_body w False = Returns (q, w1) \<and>
      xUartWriteQueue w1 = xUartWriteQueue w @ [CALC_ENTER_FIRST, USER_INPUT_TIMEOUT])
   \<and>
   (xReceiveUartMsg 50 (xQueueSend CALC_ENTER_FIRST w) False = Returns (True, False, m1, w1) \<and>
    lUartMsgtoInt32 m1 \<noteq> INVALID_NUM \<and>
    xReceiveUartMsg 50 (xQueueSend CALC_ENTER_SECOND w1) False = Returns (False, q, m2, w2) \<longrightarrow>
      vCalculatorTaskFunction_body w False = Returns (q, w2) \<and>
      xUartWriteQueue w2 =
        xUartWriteQueue w @ [CALC_ENTER_FIRST, CALC_ENTER_SECOND, USER_INPUT_TIMEOUT])
   \<and>
   (xReceiveUartMsg 50 (xQueueSend CALC_ENTER_FIRST w) False = Returns (True, False, m1, w1) \<and>
    lUartMsgtoInt32 m1 \<noteq> INVALID_NUM \<and>
    xReceiveUartMsg 50 (xQueueSend CALC_ENTER_SECOND w1) False = Returns (True, False, m2, w2) \<and>
    lUartMsgtoInt32 m2 \<noteq> INVALID_NUM \<and>
    xReceiveUartMsg 50 (xQueueSend CALC_ENTER_OPERATOR w2) False = Returns (False, q, m3, w3) \<longrightarrow>
      vCalculatorTaskFunction_body w False = Returns (q, w3) \<and>
      xUartWriteQueue w3 =
        xUartWriteQueue w @
          [CALC_ENTER_FIRST, CALC_ENTER_SECOND, CALC_ENTER_OPERATOR, USER_INPUT_TIMEOUT])"
proof (intro conjI impI)
  assume a: "xReceiveUartMsg 50 (xQueueSend CALC_ENTER_FIRST w) False = Returns (True, False, m1, w1) \<and>
    lUartMsgtoInt32 m1 = INVALID_NUM"
  then show "vCalculatorTaskFunction_body w False = Returns (False, w1)"
    by (simp add: vCalculatorTaskFunction_body_def bind_outcome_def)
  from a have "xUartWriteQueue w1 = xUartWriteQueue (xQueueSend CALC_ENTER_FIRST w)"
    using read_success_posts_nothing by blast
  then show "xUartWriteQueue w1 = xUartWriteQueue w @ [CALC_ENTER_FIRST]"
    by (simp add: xQueueSend_def)
next
  assume a: "xReceiveUartMsg 50 (xQueueSend CALC_ENTER_FIRST w) False = Returns (True, False, m1, w1) \<and>
    lUartMsgtoInt32 m1 \<noteq> INVALID_NUM \<and>
    xReceiveUartMsg 50 (xQueueSend CALC_ENTER_SECOND w1) False = Returns (True, False, m2, w2) \<and>
    lUartMsgtoInt32 m2 = INVALID_NUM"
  then show "vCalculatorTaskFunction_body w False = Returns (False, w2)"
    by (simp add: vCalculatorTaskFunction_body_def bind_outcome_def)
  from a have "xUartWriteQueue w1 = xUartWriteQueue (xQueueSend CALC_ENTER_FIRST w)"
    and "xUartWriteQueue w2 = xUartWriteQueue (xQueueSend CALC_ENTER_SECOND w1)"
    using read_success_posts_nothing by blast+
  then show "xUartWriteQueue w2 = xUartWriteQueue w @ [CALC_ENTER_FIRST, CALC_ENTER_SECOND]"
    by (simp add: xQueueSend_def)
next
  assume a: "xReceiveUartMsg 50 (xQueueSend CALC_ENTER_FIRST w) False = Returns (True, False, m1, w1) \<and>
    lUartMsgtoInt32 m1 \<noteq> INVALID_NUM \<and>
    xReceiveUartMsg 50 (xQueueSend CALC_ENTER_SECOND w1) False = Returns (True, False, m2, w2) \<and>
    lUartMsgtoInt32 m2 \<noteq> INVALID_NUM \<and>
    xReceiveUartMsg 50 (xQueueSend CALC_ENTER_OPERATOR w2) False = Returns (True, False, m3, w3) \<and>
    first_byte m3 \<noteq> CHR ''+'' \<and> first_byte m3 \<noteq> CHR ''-'' \<and>
    first_byte m3 \<noteq> CHR ''*'' \<and> first_byte m3 \<noteq> CHR ''/''"
  then show "vCalculatorTaskFunction_body w False = Returns (False, xQueueSend UNRECOGNIZED_OPERATOR w3)"
    by (simp add: vCalculatorTaskFunction_body_def bind_outcome_def)
  from a have "xUartWriteQueue w1 = xUartWriteQueue (xQueueSend CALC_ENTER_FIRST w)"
    and "xUartWriteQueue w2 = xUartWriteQueue (xQueueSend CALC_ENTER_SECOND w1)"
    and "xUartWriteQueue w3 = xUartWriteQueue (xQueueSend CALC_ENTER_OPERATOR w2)"
    using read_success_posts_nothing by blast+
  then show "xUartWriteQueue (xQueueSend UNRECOGNIZED_OPERATOR w3) =
        xUartWriteQueue w @
          [CALC_ENTER_FIRST, CALC_ENTER_SECOND, CALC_ENTER_OPERATOR, UNRECOGNIZED_OPERATOR]"
    by (simp add: xQueueSend_def)
next
  assume a: "xReceiveUartMsg 50 (xQueueSend CALC_ENTER_FIRST w) False = Returns (False, q, m1, w1)"
  then show "vCalculatorTaskFunction_body w False = Returns (q, w1)"
    by (simp add: vCalculatorTaskFunction_body_def bind_outcome_def)
  from a have "xUartWriteQueue w1 =
      xUartWriteQueue (xQueueSend CALC_ENTER_FIRST w) @ [USER_INPUT_TIMEOUT]"
    by (rule read_timeout_posts_notice)
  then show "xUartWriteQueue w1 = xUartWriteQueue w @ [CALC_ENTER_FIRST, USER_INPUT_TIMEOUT]"
    by (simp add: xQueueSend_def)
next
  assume a: "xReceiveUartMsg 50 (xQueueSend CALC_ENTER_FIRST w) False = Returns (True, False, m1, w1) \<and>
    lUartMsgtoInt32 m1 \<noteq> INVALID_NUM \<and>
    xReceiveUartMsg 50 (xQueueSend CALC_ENTER_SECOND w1) False = Returns (False, q, m2, w2)"
  then show "vCalculatorTaskFunction_body w False = Returns (q, w2)"
    by (simp add: vCalculatorTaskFunction_body_def bind_outcome_def)
  from a have "xUartWriteQueue w1 = xUartWriteQueue (xQueueSend CALC_ENTER_FIRST w)"
    using read_success_posts_nothing by blast
  moreover from a have "xUartWriteQueue w2 =
      xUartWriteQueue (xQueueSend CALC_ENTER_SECOND w1) @ [USER_INPUT_TIMEOUT]"
    using read_timeout_posts_notice by blast
  ultimately show "xUartWriteQueue w2 =
        xUartWriteQueue w @ [CALC_ENTER_FIRST, CALC_ENTER_SECOND, USER_INPUT_TIMEOUT]"
    by (simp add: xQueueSend_def)
next
  assume a: "xReceiveUartMsg 50 (xQueueSend CALC_ENTER_FIRST w) False = Returns (True, False, m1, w1) \<and>
    lUartMsgtoInt32 m1 \<noteq> INVALID_NUM \<and>
    xReceiveUartMsg 50 (xQueueSend CALC_ENTER_SECOND w1) False = Returns (True, False, m2, w2) \<and>
    lUartMsgtoInt32 m2 \<noteq> INVALID_NUM \<and>
    xReceiveUartMsg 50 (xQueueSend CALC_ENTER_OPERATOR w2) False = Returns (False, q, m3, w3)"
  then show "vCalculatorTaskFunction_body w False = Returns (q, w3)"
    by (simp add: vCalculatorTaskFunction_body_def bind_outcome_def)
  from a have "xUartWriteQueue w1 = xUartWriteQueue (xQueueSend CALC_ENTER_FIRST w)"
    and "xUartWriteQueue w2 = xUartWriteQueue (xQueueSend CALC_ENTER_SECOND w1)"
    using read_success_posts_nothing by blast+
  moreover from a have "xUartWriteQueue w3 =
      xUartWriteQueue (xQueueSend CALC_ENTER_OPERATOR w2) @ [USER_INPUT_TIMEOUT]"
    using read_timeout_posts_notice by blast
  ultimately show "xUartWriteQueue w3 =
        xUartWriteQueue w @
          [CALC_ENTER_FIRST, CALC_ENTER_SECOND, CALC_ENTER_OPERATOR, USER_INPUT_TIMEOUT]"
    by (simp add: xQueueSend_def)
qed

text \<open>
  C6, as stated, says that an invalid-input notice is posted when the first integer is not a
  number. With the input abc the pass returns and the queue holds the first prompt only.
\<close>

theorem C6_invalid_number_counterexample:
  "lUartMsgtoInt32 ''abc'' = INVALID_NUM \<and>
   vCalculatorTaskFunction_body
     \<lparr>xTickCount = 0, ticks_30000ms = 30000,
      rx_pending = [(10, CHR ''a''), (20, CHR ''b''), (30, CHR ''c''), (40, CR)],
      xUartWriteQueue = []\<rparr> False =
   Returns (False,
     \<lparr>xTickCount = 40, ticks_30000ms = 30000, rx_pending = [],
      xUartWriteQueue = [CALC_ENTER_FIRST]\<rparr>)"
  by (simp add: vCalculatorTaskFunction_body_def bind_outcome_def CR_def xReceiveUartMsg_def
        xTaskGetTickCount_def xQueueSend_def lUartMsgtoInt32_def is_digit_def)

text \<open>
  The inputs 5 and x: the pass ends after the second prompt with nothing posted for x. The
  input 5 and then a byte that comes 10 seconds after the deadline of the second read: the
  timeout notice follows the second prompt.
\<close>

theorem C6_invalid_number_witness:
  "(lUartMsgtoInt32 ''5'' \<noteq> INVALID_NUM \<and> lUartMsgtoInt32 ''x'' = INVALID_NUM \<and>
    vCalculatorTaskFunction_body
      \<lparr>xTickCount = 0, ticks_30000ms = 30000,
       rx_pending = [(10, CHR ''5''), (20, CR), (30, CHR ''x''), (40, CR)],
       xUartWriteQueue = []\<rparr> False =
    Returns (False,
      \<lparr>xTickCount = 40, ticks_30000ms = 30000, rx_pending = [],
       xUartWriteQueue = [CALC_ENTER_FIRST, CALC_ENTER_SECOND]\<rparr>)) \<and>
   vCalculatorTaskFunction_body
     \<lparr>xTickCount = 0, ticks_30000ms = 30000,
      rx_pending = [(10, CHR ''5''), (20, CR), (40000, CHR ''7'')],
      xUartWriteQueue = []\<rparr> False =
   Returns (False,
     \<lparr>xTickCount = 40000, ticks_30000ms = 30000, rx_pending = [],
      xUartWriteQueue = [CALC_ENTER_FIRST, CALC_ENTER_SECOND, USER_INPUT_TIMEOUT]\<rparr>)"
  using C6_invalid_number_posts_nothing [of
     "\<lparr>xTickCount = 0, ticks_30000ms = 30000,
      rx_pending = [(10, CHR ''5''), (20, CR), (30, CHR ''x''), (40, CR)],
      xUartWriteQueue = []\<rparr>"
     "''5''"
     "\<lparr>xTickCount = 20, ticks_30000ms = 30000,
      rx_pending = [(30, CHR ''x''), (40, CR)],
      xUartWriteQueue = [CALC_ENTER_FIRST]\<rparr>"
     "''x''"
     "\<lparr>xTickCount = 40, ticks_30000ms = 30000, rx_pending = [],
      xUartWriteQueue = [CALC_ENTER_FIRST, CALC_ENTER_SECOND]\<rparr>"]
    C6_invalid_number_posts_nothing [of
     "\<lparr>xTickCount = 0, ticks_30000ms = 30000,
      rx_pending = [(10, CHR ''5''), (20, CR), (40000, CHR ''7'')],
      xUartWriteQueue = []\<rparr>"
     "''5''"
     "\<lparr>xTickCount = 20, ticks_30000ms = 30000,
      rx_pending = [(40000, CHR ''7'')],
      xUartWriteQueue = [CALC_ENTER_FIRST]\<rparr>"
     "''7''"
     "\<lparr>xTickCount = 40000, ticks_30000ms = 30000, rx_pending = [],
      xUartWriteQueue = [CALC_ENTER_FIRST, CALC_ENTER_SECOND, USER_INPUT_TIMEOUT]\<rparr>"
     _ _ False]
  by (simp add: CR_def xReceiveUartMsg_def xTaskGetTickCount_def xQueueSend_def
        lUartMsgtoInt32_def is_digit_def INVALID_NUM_def)

subsection \<open>C5: vSetDateAndTime after a failed time entry\<close>

lemma read_keeps_clock:
  "xReceiveUartMsg cap w q = Returns (ok, q', m, w') \<Longrightarrow>
   rtc_writes w' = rtc_writes w \<and> rtc_accepts w' = rtc_accepts w"
  by (auto simp: xReceiveUartMsg_def Let_def xQueueSend_def split: outcome.splits if_splits)

text \<open>
  What the two statements of \<open>vSetDateAndTime\<close> do together. A quit seen during the time
  entry ends the function at once. An hour step that times out or gives an invalid hour,
  without a quit, ends the time entry with nothing written. And whenever the time entry ends
  without a quit, the date entry runs: with four valid fields the date is written.
\<close>

lemma time_entry_failure_keeps_date_entry:
  "(vSetDateAndTime_time w False = Returns (True, w1) \<longrightarrow>
      vSetDateAndTime w False = Returns (True, w1))
   \<and>
   (xReceiveUartMsg 50 (xQueueSend TIME_ENTER_HOUR w) False = Returns (ok, False, mh, w1) \<and>
    (if ok then sint (lUartMsgtoInt32 mh) < 0 \<or> 23 < sint (lUartMsgtoInt32 mh) else True) \<longrightarrow>
      vSetDateAndTime_time w False = Returns (False, w1) \<and> rtc_writes w1 = rtc_writes w)
   \<and>
   (vSetDateAndTime_time w False = Returns (False, w1) \<and>
    xReceiveUartMsg 50 (xQueueSend DATE_ENTER_DAY w1) False = Returns (True, False, md, w2) \<and>
    IS_RTC_DATE (lUartMsgtoInt32 md) \<and>
    xReceiveUartMsg 50 (xQueueSend DATE_ENTER_MONTH w2) False = Returns (True, False, mm, w3) \<and>
    IS_RTC_MONTH (lUartMsgtoInt32 mm) \<and>
    xReceiveUartMsg 50 (xQueueSend DATE_ENTER_YEAR w3) False = Returns (True, False, my, w4) \<and>
    0 \<le> sint (lUartMsgtoInt32 my) \<and> sint (lUartMsgtoInt32 my) \<le> 99 \<and>
    xReceiveUartMsg 50 (xQueueSend DATE_ENTER_WEEKDAY w4) False = Returns (True, False, mw, w5) \<and>
    IS_RTC_WEEKDAY (lUartMsgtoInt32 mw) \<and> rtc_accepts w5 \<longrightarrow>
      vSetDateAndTime w False =
        Returns (False,
          w5\<lparr>rtc_writes := rtc_writes w5 @
             [SetDate \<lparr>RTC_WeekDay = ucast (lUartMsgtoInt32 mw),
                       RTC_Month = ucast (lUartMsgtoInt32 mm),
                       RTC_Date = ucast (lUartMsgtoInt32 md),
                       RTC_Year = ucast (lUartMsgtoInt32 my)\<rparr>]\<rparr>))"
proof (intro conjI impI)
  assume "vSetDateAndTime_time w False = Returns (True, w1)"
  then show "vSetDateAndTime w False = Returns (True, w1)"
    by (simp add: vSetDateAndTime_def bind_outcome_def)
next
  assume a: "xReceiveUartMsg 50 (xQueueSend TIME_ENTER_HOUR w) False = Returns (ok, False, mh, w1) \<and>
    (if ok then sint (lUartMsgtoInt32 mh) < 0 \<or> 23 < sint (lUartMsgtoInt32 mh) else True)"
  then show "vSetDateAndTime_time w False = Returns (False, w1)"
    by (cases ok) (auto simp: vSetDateAndTime_time_def bind_outcome_def Let_def)
  from a have "rtc_writes w1 = rtc_writes (xQueueSend TIME_ENTER_HOUR w)"
    using read_keeps_clock by blast
  then show "rtc_writes w1 = rtc_writes w" by (simp add: xQueueSend_def)
next
  assume "vSetDateAndTime_time w False = Returns (False, w1) \<and>
    xReceiveUartMsg 50 (xQueueSend DATE_ENTER_DAY w1) False = Returns (True, False, md, w2) \<and>
    IS_RTC_DATE (lUartMsgtoInt32 md) \<and>
    xReceiveUartMsg 50 (xQueueSend DATE_ENTER_MONTH w2) False = Returns (True, False, mm, w3) \<and>
    IS_RTC_MONTH (lUartMsgtoInt32 mm) \<and>
    xReceiveUartMsg 50 (xQueueSend DATE_ENTER_YEAR w3) False = Returns (True, False, my, w4) \<and>
    0 \<le> sint (lUartMsgtoInt32 my) \<and> sint (lUartMsgtoInt32 my) \<le> 99 \<and>
    xReceiveUartMsg 50 (xQueueSend DATE_ENTER_WEEKDAY w4) False = Returns (True, False, mw, w5) \<and>
    IS_RTC_WEEKDAY (lUartMsgtoInt32 mw) \<and> rtc_accepts w5"
  then show "vSetDateAndTime w False =
        Returns (False,
          w5\<lparr>rtc_writes := rtc_writes w5 @
             [SetDate \<lparr>RTC_WeekDay = ucast (lUartMsgtoInt32 mw),
                       RTC_Month = ucast (lUartMsgtoInt32 mm),
                       RTC_Date = ucast (lUartMsgtoInt32 md),
                       RTC_Year = ucast (lUartMsgtoInt32 my)\<rparr>]\<rparr>)"
    by (simp add: vSetDateAndTime_def vSetDateAndTime_date_def bind_outcome_def RTC_SetDate_def)
qed

text \<open>
  C5 says that after a time-entry step fails by timeout or by invalid input, without a
  quit, no date-entry step is prompted and the date is not written; the header of
  \<^verbatim>\<open>vSetDateAndTime\<close> says the same (the function will not set the date or time when the user
  gives no appropriate input or no input within 30 seconds). The code guards the date entry
  with the quit flag only. Here the hour entered is 99: the time entry stops, the four date
  prompts follow and the date 15-6-21 is written.
\<close>

theorem C5_date_entry_after_invalid_hour:
  "vSetDateAndTime
     \<lparr>xTickCount = 0, ticks_30000ms = 30000,
      rx_pending = [(10, CHR ''9''), (20, CHR ''9''), (30, CR),
                    (40, CHR ''1''), (50, CHR ''5''), (60, CR),
                    (70, CHR ''6''), (80, CR),
                    (90, CHR ''2''), (100, CHR ''1''), (110, CR),
                    (120, CHR ''2''), (130, CR)],
      xUartWriteQueue = [], rtc_accepts = True, rtc_writes = []\<rparr> False =
   Returns (False,
     \<lparr>xTickCount = 130, ticks_30000ms = 30000, rx_pending = [],
      xUartWriteQueue = [TIME_ENTER_HOUR, DATE_ENTER_DAY, DATE_ENTER_MONTH, DATE_ENTER_YEAR,
                         DATE_ENTER_WEEKDAY],
      rtc_accepts = True,
      rtc_writes = [SetDate \<lparr>RTC_WeekDay = 2, RTC_Month = 6, RTC_Date = 15, RTC_Year = 21\<rparr>]\<rparr>)"
  by (simp add: vSetDateAndTime_def vSetDateAndTime_time_def vSetDateAndTime_date_def
        bind_outcome_def CR_def xReceiveUartMsg_def xTaskGetTickCount_def xQueueSend_def
        lUartMsgtoInt32_def is_digit_def RTC_SetDate_def IS_RTC_DATE_def IS_RTC_MONTH_def
        IS_RTC_WEEKDAY_def)

text \<open>The same after a timeout of the hour step: the notice is posted, then the date is asked.\<close>

lemma date_entry_after_timeout:
  "vSetDateAndTime
     \<lparr>xTickCount = 0, ticks_30000ms = 30000,
      rx_pending = [(40000, CHR ''1''),
                    (40040, CHR ''1''), (40050, CHR ''5''), (40060, CR),
                    (40070, CHR ''6''), (40080, CR),
                    (40090, CHR ''2''), (40100, CHR ''1''), (40110, CR),
                    (40120, CHR ''2''), (40130, CR)],
      xUartWriteQueue = [], rtc_accepts = True, rtc_writes = []\<rparr> False =
   Returns (False,
     \<lparr>xTickCount = 40130, ticks_30000ms = 30000, rx_pending = [],
      xUartWriteQueue = [TIME_ENTER_HOUR, USER_INPUT_TIMEOUT, DATE_ENTER_DAY, DATE_ENTER_MONTH,
                         DATE_ENTER_YEAR, DATE_ENTER_WEEKDAY],
      rtc_accepts = True,
      rtc_writes = [SetDate \<lparr>RTC_WeekDay = 2, RTC_Month = 6, RTC_Date = 15, RTC_Year = 21\<rparr>]\<rparr>)"
  by (simp add: vSetDateAndTime_def vSetDateAndTime_time_def vSetDateAndTime_date_def
        bind_outcome_def CR_def xReceiveUartMsg_def xTaskGetTickCount_def xQueueSend_def
        lUartMsgtoInt32_def is_digit_def RTC_SetDate_def IS_RTC_DATE_def IS_RTC_MONTH_def
        IS_RTC_WEEKDAY_def)

subsection \<open>C9: the extrema of a monitoring session\<close>








subsection \<open>C10: the timer handle after a sleep\<close>

lemma led_action_keeps_handle:
  "pxLedToggleTimer w = Some h \<Longrightarrow> pxLedToggleTimer (do_led_action a w) = Some h"
  by (cases a)
     (simp_all add: vLedToggleEnable_def vLedToggleDisable_def vManageAppSleep_enter_def
        vManageAppSleep_woken_def vManageAppSleep_leave_def xTaskNotifyWait_returns_def
        USART2_IRQHandler_notify_def xTaskNotifyFromISR_def xTaskNotify_def xQueueSend_def
        xTimerStart_def xTimerStop_def xTimerDelete_def Let_def)

lemma led_actions_keep_handle:
  "pxLedToggleTimer w = Some h \<Longrightarrow> pxLedToggleTimer (do_led_actions as w) = Some h"
  by (induction as arbitrary: w) (simp_all add: led_action_keeps_handle)

text \<open>
  C10: when a LED timer exists (the handle is not \<^verbatim>\<open>NULL\<close>), \<open>vManageAppSleep\<close> stops it and
  deletes it and leaves the handle as it was; whatever the Main Menu task does with the LED
  afterwards, the handle is still the deleted timer's, so every later \<open>vLedToggleEnable\<close>
  takes the branch for an existing timer: it creates nothing and sends one start command
  for the stale handle.
\<close>

theorem C10_stale_timer_handle:
  assumes "pxLedToggleTimer w = Some h"
  shows "timer_commands (vManageAppSleep_enter w) =
           timer_commands w @ [TIMER_STOP h, TIMER_DELETE h] \<and>
         pxLedToggleTimer (do_led_action AppSleep w) = Some h \<and>
         pxLedToggleTimer (do_led_actions as (do_led_action AppSleep w)) = Some h \<and>
         vLedToggleEnable ulToggleDuration (do_led_actions as (do_led_action AppSleep w)) =
           xTimerStart h (do_led_actions as (do_led_action AppSleep w)) \<and>
         timer_commands
           (vLedToggleEnable ulToggleDuration (do_led_actions as (do_led_action AppSleep w))) =
           timer_commands (do_led_actions as (do_led_action AppSleep w)) @ [TIMER_START h]"
proof -
  have a: "timer_commands (vManageAppSleep_enter w) =
           timer_commands w @ [TIMER_STOP h, TIMER_DELETE h]"
    using assms
    by (simp add: vManageAppSleep_enter_def vLedToggleDisable_def xTimerStop_def
          xTimerDelete_def xQueueSend_def Let_def)
  have b: "pxLedToggleTimer (do_led_action AppSleep w) = Some h"
    using assms by (rule led_action_keeps_handle)
  then have c: "pxLedToggleTimer (do_led_actions as (do_led_action AppSleep w)) = Some h"
    by (rule led_actions_keep_handle)
  then have d: "vLedToggleEnable ulToggleDuration (do_led_actions as (do_led_action AppSleep w)) =
           xTimerStart h (do_led_actions as (do_led_action AppSleep w))"
    by (simp add: vLedToggleEnable_def)
  show ?thesis using a b c d by (simp add: xTimerStart_def)
qed

text \<open>
  Enable, sleep, disable, enable again: the second enable only restarts timer 1, which was
  deleted.
\<close>

theorem C10_stale_timer_handle_witness:
  "pxLedToggleTimer (vLedToggleEnable 500 scheduler_start) = Some 1 \<and>
   timer_commands
     (vLedToggleEnable 500
        (do_led_actions [LedToggleDisable] (do_led_action AppSleep
           (vLedToggleEnable 500 scheduler_start)))) =
   [TIMER_CREATE 1 500, TIMER_START 1, TIMER_STOP 1, TIMER_DELETE 1, TIMER_STOP 1, TIMER_START 1]"
  using C10_stale_timer_handle [of "vLedToggleEnable 500 scheduler_start" 1
          "[LedToggleDisable]" 500]
  by (simp add: vLedToggleEnable_def vLedToggleDisable_def vManageAppSleep_enter_def
        vManageAppSleep_woken_def vManageAppSleep_leave_def xTaskNotifyWait_returns_def
        USART2_IRQHandler_notify_def xTaskNotifyFromISR_def xTaskNotify_def xQueueSend_def
        xTimerCreate_def xTimerStart_def xTimerStop_def xTimerDelete_def Let_def
        scheduler_start_def)

subsection \<open>C7: the pointer read by USART2_IRQHandler\<close>

text \<open>
  The statements before the \<^verbatim>\<open>if\<close> do what C7 says: the flag is cleared and one notification
  is sent to the Main Menu task. The pointer they leave is \<^verbatim>\<open>NULL\<close>.
\<close>

lemma USART2_IRQHandler_wakes:
  "USART2_IRQHandler_notify w =
     (None, w\<lparr>xGoToSleep := False, notified := (notified w)(MainMenuTask := True)\<rparr>)"
  by (simp add: USART2_IRQHandler_notify_def xTaskNotifyFromISR_def xTaskNotify_def)

text \<open>
  C7 says that every pointer the handler dereferences refers to validly initialised
  storage, the flag it inspects after \<^verbatim>\<open>xTaskNotifyFromISR\<close> included. That flag is read
  through \<^verbatim>\<open>pxIsMainMenuTaskHigherPriority\<close>, which is \<^verbatim>\<open>NULL\<close> from its initialiser on: in every
  state the handler ends in a read through a null pointer.
\<close>

theorem C7_handler_reads_null_pointer:
  "USART2_IRQHandler w = Faults NullPointerDereference"
  by (simp add: USART2_IRQHandler_def USART2_IRQHandler_wakes)

subsection \<open>C1: the handoff between the Main Menu task and the sub-applications\<close>

text \<open>
  The \<^verbatim>\<open>switch\<close> sends one notification, to the task of the digit, and goes to the wait.
\<close>

lemma switch_notifies_selected_task:
  "vMainMenuTaskFunction_switch 1 s =
     Returns (s\<lparr>notified := (notified s)(ClockTask := True), main_menu_pc := WAITING_FOR_RETURN\<rparr>)"
  "vMainMenuTaskFunction_switch 2 s =
     Returns (s\<lparr>notified := (notified s)(GameTask := True), main_menu_pc := WAITING_FOR_RETURN\<rparr>)"
  "vMainMenuTaskFunction_switch 3 s =
     Returns (s\<lparr>notified := (notified s)(CalculatorTask := True),
               main_menu_pc := WAITING_FOR_RETURN\<rparr>)"
  by (simp_all add: vMainMenuTaskFunction_switch_def xTaskNotify_def)

lemma same_handoff_tokens:
  "same_handoff s s' \<Longrightarrow> tokens s' = tokens s \<and> sub_tokens s' = sub_tokens s"
  by (simp add: same_handoff_def tokens_def sub_tokens_def)

lemma same_handoff_ok: "same_handoff s s' \<Longrightarrow> handoff_ok s \<Longrightarrow> handoff_ok s'"
  using same_handoff_tokens [of s s']
  by (cases "main_menu_pc s") (auto simp: handoff_ok_def same_handoff_def split: if_splits)

lemma same_handoff_trans: "same_handoff s s' \<Longrightarrow> same_handoff s' s'' \<Longrightarrow> same_handoff s s''"
  by (simp add: same_handoff_def)

lemma read_same_handoff:
  "xReceiveUartMsg cap (xQueueSend msg s) q = Returns (ok, q', m, s') \<Longrightarrow> same_handoff s s'"
  by (auto simp: xReceiveUartMsg_def Let_def xQueueSend_def same_handoff_def
           split: outcome.splits if_splits)

lemma led_same_handoff: "vManageLedToggle s = Returns s' \<Longrightarrow> same_handoff s s'"
proof -
  assume a: "vManageLedToggle s = Returns s'"
  then obtain ok q m s1 where
    r: "xReceiveUartMsg 50 (xQueueSend LED_TOGGLE_PROMPT s) False = Returns (ok, q, m, s1)"
    by (auto simp: vManageLedToggle_def bind_outcome_def split: outcome.splits)
  have 1: "same_handoff s s1" using r by (rule read_same_handoff)
  have "same_handoff s1 s'"
    using a r
    by (auto simp: vManageLedToggle_def bind_outcome_def same_handoff_def
          vLedToggleEnable_def vLedToggleDisable_def xTimerCreate_def xTimerStart_def
          xTimerStop_def Let_def split: if_splits option.splits)
  with 1 show ?thesis by (rule same_handoff_trans)
qed

lemma temp_same_handoff: "vManageTempMonitor s = Returns s' \<Longrightarrow> same_handoff s s'"
proof -
  assume a: "vManageTempMonitor s = Returns s'"
  then obtain ok q m s1 where
    r: "xReceiveUartMsg 150 (xQueueSend TEMP_MONITOR_MENU s) False = Returns (ok, q, m, s1)"
    by (auto simp: vManageTempMonitor_def bind_outcome_def split: outcome.splits)
  have 1: "same_handoff s s1" using r by (rule read_same_handoff)
  have "same_handoff s1 s'"
    using a r
    by (auto simp: vManageTempMonitor_def bind_outcome_def same_handoff_def
          vTaskDelay_def xQueueSend_def xTaskNotify_def split: if_splits)
  with 1 show ?thesis by (rule same_handoff_trans)
qed

lemma switch_keeps_handoff:
  assumes "handoff_ok s" and "main_menu_pc s = AT_LOOP_HEAD"
      and "vMainMenuTaskFunction_switch n s = Returns s'"
  shows "handoff_ok s'"
proof -
  have i: "\<not> usart2_rxne_interrupt s" and t: "tokens s = 0"
    using assms(1,2) by (auto simp: handoff_ok_def split: if_splits)
  consider "n = 1" | "n = 2" | "n = 3" | "n = 4" | "n = 5" | "n = 6"
    | "n \<noteq> 1 \<and> n \<noteq> 2 \<and> n \<noteq> 3 \<and> n \<noteq> 4 \<and> n \<noteq> 5 \<and> n \<noteq> 6" by blast
  then show ?thesis
  proof cases
    case 1
    then show ?thesis using assms(3) i t
      by (auto simp: vMainMenuTaskFunction_switch_def handoff_ok_def tokens_def sub_tokens_def
            xTaskNotify_def split: if_splits)
  next
    case 2
    then show ?thesis using assms(3) i t
      by (auto simp: vMainMenuTaskFunction_switch_def handoff_ok_def tokens_def sub_tokens_def
            xTaskNotify_def split: if_splits)
  next
    case 3
    then show ?thesis using assms(3) i t
      by (auto simp: vMainMenuTaskFunction_switch_def handoff_ok_def tokens_def sub_tokens_def
            xTaskNotify_def split: if_splits)
  next
    case 4
    then have "vManageTempMonitor s = Returns s'"
      using assms(3) by (simp add: vMainMenuTaskFunction_switch_def)
    then show ?thesis using assms(1) temp_same_handoff same_handoff_ok by blast
  next
    case 5
    then have "vManageLedToggle s = Returns s'"
      using assms(3) by (simp add: vMainMenuTaskFunction_switch_def)
    then show ?thesis using assms(1) led_same_handoff same_handoff_ok by blast
  next
    case 6
    then show ?thesis using assms(3) t
      by (auto simp: vMainMenuTaskFunction_switch_def handoff_ok_def tokens_def sub_tokens_def
            vManageAppSleep_enter_def vLedToggleDisable_def xTimerStop_def xTimerDelete_def
            xQueueSend_def Let_def split: if_splits option.splits)
  next
    case 7
    then have "s' = xQueueSend UNRECOGNIZED_OPTION s"
      using assms(3) by (simp add: vMainMenuTaskFunction_switch_def)
    then show ?thesis using assms(1,2) i
      by (auto simp: handoff_ok_def tokens_def sub_tokens_def xQueueSend_def split: if_splits)
  qed
qed

lemma main_menu_keeps_handoff:
  assumes "handoff_ok s" and "vMainMenuTaskFunction_runs s = Returns s'"
  shows "handoff_ok s'"
proof (cases "main_menu_pc s")
  case AT_LOOP_HEAD
  with assms(2) obtain ok q m s1 where
    r: "xReceiveUartMsg 50 (xQueueSend MENU s) False = Returns (ok, q, m, s1)" and
    k: "(if ok \<and> \<not> q then vMainMenuTaskFunction_switch (option_selected m) s1 else Returns s1) =
        Returns s'"
    by (auto simp: vMainMenuTaskFunction_runs_def bind_outcome_def split: outcome.splits)
  have 1: "same_handoff s s1" using r by (rule read_same_handoff)
  then have o: "handoff_ok s1" using assms(1) by (rule same_handoff_ok)
  have p: "main_menu_pc s1 = AT_LOOP_HEAD" using 1 AT_LOOP_HEAD by (simp add: same_handoff_def)
  show ?thesis
  proof (cases "ok \<and> \<not> q")
    case True
    with k have "vMainMenuTaskFunction_switch (option_selected m) s1 = Returns s'" by simp
    with o p show ?thesis by (rule switch_keeps_handoff)
  next
    case False
    with k o show ?thesis by auto
  qed
next
  case WAITING_FOR_RETURN
  then show ?thesis using assms
    by (auto simp: vMainMenuTaskFunction_runs_def handoff_ok_def tokens_def sub_tokens_def
          xTaskNotifyWait_def xTaskNotifyWait_returns_def split: if_splits)
next
  case WAITING_FOR_WAKE
  then show ?thesis using assms
    by (auto simp: vMainMenuTaskFunction_runs_def handoff_ok_def tokens_def sub_tokens_def
          xTaskNotifyWait_def xTaskNotifyWait_returns_def vManageAppSleep_woken_def
          xQueueSend_def split: if_splits)
next
  case WOKEN
  then show ?thesis using assms
    by (auto simp: vMainMenuTaskFunction_runs_def handoff_ok_def tokens_def sub_tokens_def
          vManageAppSleep_leave_def split: if_splits)
qed

lemma sub_application_keeps_handoff:
  assumes "handoff_ok s"
  shows "handoff_ok (sub_application_runs a q s)"
  using assms
  by (cases a; cases "main_menu_pc s")
     (auto simp: sub_application_runs_def handoff_ok_def tokens_def sub_tokens_def
        xTaskNotifyWait_def xTaskNotifyWait_returns_def xTaskNotify_def split: if_splits)

lemma byte_keeps_handoff:
  assumes "handoff_ok s" and "main_menu_pc s \<noteq> WOKEN"
  shows "handoff_ok (usart2_byte_received s)"
  using assms
  by (cases "main_menu_pc s")
     (auto simp: usart2_byte_received_def handoff_ok_def tokens_def sub_tokens_def
        USART2_IRQHandler_notify_def xTaskNotifyFromISR_def xTaskNotify_def split: if_splits)

lemma start_handoff_ok: "handoff_ok (system_start rx)"
  by (simp add: system_start_def scheduler_start_def handoff_ok_def tokens_def sub_tokens_def
        world.defs clock.defs console.defs system.defs)

lemma handoff_invariant: "reached_without_late_byte s \<Longrightarrow> handoff_ok s"
proof (induction rule: reached_without_late_byte.induct)
  case (at_start rx)
  show ?case by (rule start_handoff_ok)
next
  case (after_step s e s')
  show ?case
  proof (cases e)
    case MainMenuRuns
    with after_step show ?thesis using main_menu_keeps_handoff by auto
  next
    case (SubApplicationRuns a q)
    with after_step show ?thesis using sub_application_keeps_handoff by auto
  next
    case Usart2ByteReceived
    with after_step show ?thesis using byte_keeps_handoff by auto
  qed
qed

text \<open>
  As long as no byte arrives in the window of \<^verbatim>\<open>vManageAppSleep\<close>, the handoff is what C1
  says: while a sub-application runs, the Main Menu task is in its wait with no
  notification pending, and no other sub-application runs.
\<close>

lemma handoff_exclusive:
  assumes "reached_without_late_byte s" and "running s a"
  shows "main_menu_pc s = WAITING_FOR_RETURN \<and> \<not> notified s MainMenuTask \<and>
         (\<forall>b. running s b \<longrightarrow> b = a)"
proof -
  have "handoff_ok s" using assms(1) by (rule handoff_invariant)
  then show ?thesis using assms(2)
    apply (cases a; cases "main_menu_pc s")
    apply (auto simp: handoff_ok_def tokens_def sub_tokens_def split: if_splits)
    subgoal for b by (cases b) auto
    subgoal for b by (cases b) auto
    subgoal for b by (cases b) auto
    done
qed

lemmas sys_defs =
  system_start_def scheduler_start_def world.defs clock.defs console.defs system.defs
  vMainMenuTaskFunction_runs_def vMainMenuTaskFunction_switch_def
  sub_application_runs_def usart2_byte_received_def bind_outcome_def
  xReceiveUartMsg_def xTaskGetTickCount_def xQueueSend_def CR_def option_selected_def first_byte_def
  xTaskNotify_def xTaskNotifyWait_def xTaskNotifyWait_returns_def
  vManageAppSleep_enter_def vManageAppSleep_woken_def vManageAppSleep_leave_def
  USART2_IRQHandler_notify_def xTaskNotifyFromISR_def Let_def

text \<open>
  C1 says that after notifying a sub-application the Main Menu task stays blocked until
  that sub-application notifies it back, in every reachable state. A notification is a
  single pending bit, and the handler of USART2 sends one for every byte received while
  the receive interrupt is enabled. \<^verbatim>\<open>vManageAppSleep\<close> disables the interrupt only after its
  wait has returned and the wake-up message is posted. Here the user selects 6, a first
  byte wakes the application, a second byte arrives before the interrupt is disabled and
  leaves a notification pending, and the user selects 1: the wait after the notification
  of the clock task returns at once. The Main Menu task is back at the head of its loop
  while the clock sub-application runs and has sent nothing. When the user then selects 2,
  the game sub-application runs beside the clock sub-application.
\<close>

theorem C1_dispatcher_unblocked_early:
  "(case run [MainMenuRuns, Usart2ByteReceived, MainMenuRuns, Usart2ByteReceived, MainMenuRuns,
              MainMenuRuns, MainMenuRuns, SubApplicationRuns CLOCK False]
          (system_start [(10, CHR ''6''), (20, CR), (5000, CHR ''1''), (5010, CR)]) of
      Returns s \<Rightarrow>
        main_menu_pc s = AT_LOOP_HEAD \<and> running s CLOCK \<and> \<not> notified s MainMenuTask \<and>
        xUartWriteQueue s = [MENU, WENT_TO_SLEEP, WOKE_UP, MENU]
    | NeverReturns \<Rightarrow> False
    | Faults f \<Rightarrow> False) \<and>
   (case run [MainMenuRuns, Usart2ByteReceived, MainMenuRuns, Usart2ByteReceived, MainMenuRuns,
              MainMenuRuns, MainMenuRuns, SubApplicationRuns CLOCK False,
              MainMenuRuns, SubApplicationRuns GAME False]
          (system_start [(10, CHR ''6''), (20, CR), (5000, CHR ''1''), (5010, CR),
                         (9000, CHR ''2''), (9010, CR)]) of
      Returns s \<Rightarrow> running s CLOCK \<and> running s GAME
    | NeverReturns \<Rightarrow> False
    | Faults f \<Rightarrow> False)"
  by (simp add: sys_defs)

end
